theory Spec2Isabelle
  imports Main "HOL-Library.AList"
begin

section \<open>JavaScript values\<close>

text \<open>
  The library is TypeScript running in a browser. Response bodies, request payloads and
  the fields of a failure are JavaScript values; the ones that \<^verbatim>\<open>JSON.parse\<close> and
  \<^verbatim>\<open>Response.json()\<close> can produce are modelled, together with \<^verbatim>\<open>undefined\<close>.
  An object is its list of own properties in insertion order; a lookup reads the first
  entry of a key, an assignment (\<open>AList.update\<close>) overwrites it in place or appends it.
  Numbers are integers: HTTP statuses, error codes and timeouts are, and only comparison,
  \<^verbatim>\<open>Math.max\<close>, truthiness and decimal printing are applied to them.
\<close>

datatype jsval =
    JUndefined
  | JNull
  | JBool bool
  | JNum int
  | JStr string
  | JArr "jsval list"
  | JObj "(string \<times> jsval) list"

text \<open>Truthiness, as read by \<^verbatim>\<open>if (x)\<close>, \<^verbatim>\<open>!x\<close> and \<^verbatim>\<open>x || y\<close>.\<close>

fun truthy :: "jsval \<Rightarrow> bool" where
  "truthy JUndefined = False"
| "truthy JNull = False"
| "truthy (JBool b) = b"
| "truthy (JNum n) = (n \<noteq> 0)"
| "truthy (JStr s) = (s \<noteq> [])"
| "truthy (JArr xs) = True"
| "truthy (JObj kvs) = True"

text \<open>\<^verbatim>\<open>a || b\<close>\<close>

definition js_or :: "jsval \<Rightarrow> jsval \<Rightarrow> jsval" where
  "js_or a b = (if truthy a then a else b)"

subsection \<open>Printing numbers\<close>

definition digit_char :: "nat \<Rightarrow> char" where
  "digit_char d = ''0123456789'' ! (d mod 10)"

function string_of_nat :: "nat \<Rightarrow> string" where
  "string_of_nat n =
     (if n < 10 then [digit_char n] else string_of_nat (n div 10) @ [digit_char n])"
  by pat_completeness auto
termination
  by (relation "measure id") auto

declare string_of_nat.simps [simp del]

text \<open>
  \<^verbatim>\<open>'' + n\<close> for an integer \<open>n\<close> (decimal digits, a leading minus sign); JavaScript
  switches to exponent notation only from \<open>10\<^sup>2\<^sup>1\<close> on.
\<close>

definition string_of_int :: "int \<Rightarrow> string" where
  "string_of_int i =
     (if i < 0 then CHR ''-'' # string_of_nat (nat (- i)) else string_of_nat (nat i))"

subsection \<open>Thrown values\<close>

text \<open>
  \<^verbatim>\<open>class RequestError extends Error\<close>: \<^verbatim>\<open>status\<close>, \<^verbatim>\<open>code\<close>, the message handed
  to \<^verbatim>\<open>super(msg)\<close>, and the stack when a truthy one was passed (\<open>None\<close>: the stack the
  engine recorded). At run time \<open>status\<close> and \<open>code\<close> hold whatever value the caller of
  the constructor computed, so they are \<open>jsval\<close>s.
\<close>

record RequestError =
  status :: jsval
  code :: jsval
  message :: string
  stack :: "jsval option"

datatype thrown =
    ReqError RequestError
  | TypeError
  | SyntaxError
  | Thrown jsval

text \<open>The state of a promise.\<close>

datatype outcome = Pending | Resolved jsval | Rejected thrown

subsection \<open>Conversion to a string\<close>

fun join_strings :: "string list \<Rightarrow> string" where
  "join_strings [] = []"
| "join_strings [x] = x"
| "join_strings (x # y # ys) = x @ CHR '','' # join_strings (y # ys)"

definition join_comma :: "string option list \<Rightarrow> string option" where
  "join_comma xs =
     (if list_ex (\<lambda>x. x = None) xs then None else Some (join_strings (map the xs)))"

text \<open>
  \<^verbatim>\<open>'' + v\<close> and the conversion \<^verbatim>\<open>new Error(v)\<close> applies to its argument; \<open>None\<close> is a
  thrown \<^verbatim>\<open>TypeError\<close>. A plain object prints as \<^verbatim>\<open>[object Object]\<close> through the
  inherited \<^verbatim>\<open>toString\<close>; an own property of that name came out of JSON, is not callable,
  and leaves no way to a primitive. An array joins its elements with commas, the empty
  text standing for \<^verbatim>\<open>null\<close> and \<^verbatim>\<open>undefined\<close>.
\<close>

fun ToString :: "jsval \<Rightarrow> string option" where
  "ToString JUndefined = Some ''undefined''"
| "ToString JNull = Some ''null''"
| "ToString (JBool b) = Some (if b then ''true'' else ''false'')"
| "ToString (JNum n) = Some (string_of_int n)"
| "ToString (JStr s) = Some s"
| "ToString (JArr xs) =
     join_comma (map (\<lambda>x. if x = JUndefined \<or> x = JNull then Some [] else ToString x) xs)"
| "ToString (JObj kvs) =
     (if map_of kvs ''toString'' \<noteq> None then None else Some ''[object Object]'')"

text \<open>
  The message of \<^verbatim>\<open>new Error(msg)\<close>: empty for \<^verbatim>\<open>undefined\<close>, the converted argument
  otherwise.
\<close>

fun Error_message :: "jsval \<Rightarrow> string option" where
  "Error_message JUndefined = Some []"
| "Error_message v = ToString v"

text \<open>
  \<^verbatim>\<open>new RequestError(status, code, msg, stack)\<close>: \<open>Inl\<close> when the constructor throws
  (the message cannot be converted), \<open>Inr\<close> the error object otherwise.
\<close>

definition new_RequestError ::
  "jsval \<Rightarrow> jsval \<Rightarrow> jsval \<Rightarrow> jsval \<Rightarrow> thrown + RequestError" where
  "new_RequestError st cd msg stk =
     (case Error_message msg of
        None \<Rightarrow> Inl TypeError
      | Some m \<Rightarrow>
          Inr \<lparr>status = st, code = cd, message = m,
               stack = (if truthy stk then Some stk else None)\<rparr>)"

subsection \<open>Constants of the module\<close>

definition REQUEST_SUCCESS_STATUS :: int where "REQUEST_SUCCESS_STATUS = 200"
definition REQUEST_300_STATUS :: int where "REQUEST_300_STATUS = 300"
definition REQUEST_CACHE_STATUS :: int where "REQUEST_CACHE_STATUS = 304"

definition REQUEST_TIMEOUT_STATUS :: int where "REQUEST_TIMEOUT_STATUS = 504"
definition REQUEST_TIMEOUT_CODE :: string where "REQUEST_TIMEOUT_CODE = ''1001''"
definition REQUEST_TIMEOUT_MSG :: string where "REQUEST_TIMEOUT_MSG = ''Request Timeout''"

definition REQUEST_ERROR_STATUS :: int where "REQUEST_ERROR_STATUS = 500"
definition REQUEST_ERROR_CODE :: string where "REQUEST_ERROR_CODE = ''1000''"
definition REQUEST_ERROR_MSG :: string where "REQUEST_ERROR_MSG = ''Unknow Error''"

definition REQUEST_ABORT_STATUS :: int where "REQUEST_ABORT_STATUS = 400"
definition REQUEST_ABORT_CODE :: string where "REQUEST_ABORT_CODE = ''1002''"
definition REQUEST_ABORT_MSG :: string where "REQUEST_ABORT_MSG = ''Request Aborted''"


section \<open>The request object\<close>

datatype RequestMethod = GET | HEAD | POST | PUT | PATCH | DELETE | OPTIONS

datatype RequestType = T_json | T_text | T_urlencoded | T_form

datatype RequestDataType = DT_json | DT_text

text \<open>\<^verbatim>\<open>type RequestContentType = string | false\<close>\<close>

datatype RequestContentType = CT string | CT_false

text \<open>
  \<^verbatim>\<open>type ParseFunction = (result: any) => ResponseData\<close>. A parser is the caller's code: it
  may throw (\<open>Inl\<close>), and what it returns is not checked at run time.
\<close>

type_synonym ParseFunction = "jsval \<Rightarrow> thrown + jsval"

text \<open>
  \<^verbatim>\<open>interface RequestOptions\<close>: every field is optional, \<open>None\<close> is an absent field.
  \<^verbatim>\<open>onProgress\<close> is only handed to the upload progress listener and is left out.
\<close>

record RequestOptions =
  o_method :: "RequestMethod option"
  o_headers :: "(string \<rightharpoonup> string) option"
  o_type :: "RequestType option"
  o_dataType :: "RequestDataType option"
  o_contentType :: "RequestContentType option"
  o_timeout :: "int option"
  o_useXHR :: "bool option"
  o_credentials :: "bool option"
  o_parse :: "ParseFunction option"

text \<open>The options object \<^verbatim>\<open>{}\<close>.\<close>

definition no_options :: RequestOptions where
  "no_options =
     \<lparr>o_method = None, o_headers = None, o_type = None, o_dataType = None,
      o_contentType = None, o_timeout = None, o_useXHR = None, o_credentials = None,
      o_parse = None\<rparr>"

text \<open>The fields of \<^verbatim>\<open>class Request\<close> that the constructor sets.\<close>

record Request =
  r_url :: string
  r_data :: jsval
  r_type :: RequestType
  r_dataType :: RequestDataType
  r_headers :: "string \<rightharpoonup> string"
  r_method :: RequestMethod
  r_timeout :: int
  r_useXHR :: bool
  r_cors :: bool
  r_credentials :: bool
  r_parse :: "ParseFunction option"

text \<open>
  What the constructor reads from outside the repository: the page's
  \<^verbatim>\<open>window.location.hostname\<close>, \<^verbatim>\<open>qs.stringify\<close> of the query-string package and
  the platform's \<^verbatim>\<open>JSON.stringify\<close>.
\<close>

record env =
  hostname :: string
  qs_stringify :: "jsval \<Rightarrow> string"
  JSON_stringify :: "jsval \<Rightarrow> string"

text \<open>\<^verbatim>\<open>const contentTypes = { json: ..., text: ..., urlencoded: ..., form: ... }\<close>\<close>

fun contentTypes :: "RequestType \<Rightarrow> string" where
  "contentTypes T_json = ''application/json''"
| "contentTypes T_text = ''text/plain''"
| "contentTypes T_urlencoded = ''application/x-www-form-urlencoded''"
| "contentTypes T_form = ''multipart/form-data''"

text \<open>A data type indexes the same table under its own name.\<close>

fun dataType_key :: "RequestDataType \<Rightarrow> RequestType" where
  "dataType_key DT_json = T_json"
| "dataType_key DT_text = T_text"

text \<open>The field initialisers of the class.\<close>

definition Request_init :: Request where
  "Request_init =
     \<lparr>r_url = [], r_data = JNull, r_type = T_json, r_dataType = DT_json,
      r_headers = [''Accept'' \<mapsto> contentTypes T_json, ''Content-Type'' \<mapsto> contentTypes T_json],
      r_method = GET, r_timeout = 0, r_useXHR = False, r_cors = False,
      r_credentials = False, r_parse = None\<rparr>"

subsection \<open>The pattern for absolute URLs\<close>

text \<open>
  \<^verbatim>\<open>const ABSOLUTE_PATH_REG = /^(?:http[s]?:)?\/\/(.*?)/i\<close>, run by a backtracking
  matcher. \<open>match_ci p s\<close> matches the literal \<open>p\<close> (given in lower case) at the start of
  \<open>s\<close> without regard to case and returns the rest of \<open>s\<close>.
\<close>

definition lower_char :: "char \<Rightarrow> char" where
  "lower_char c =
     (let n = (of_char c :: nat) in if 65 \<le> n \<and> n \<le> 90 then char_of (n + 32) else c)"

fun match_ci :: "string \<Rightarrow> string \<Rightarrow> string option" where
  "match_ci [] s = Some s"
| "match_ci (p # ps) [] = None"
| "match_ci (p # ps) (c # cs) = (if lower_char c = p then match_ci ps cs else None)"

text \<open>
  The lazy group \<^verbatim>\<open>(.*?)\<close>: it takes the shortest run of characters (none of them a
  line terminator) after which the rest of the pattern, \<open>k\<close>, matches; \<open>acc\<close> is what
  the group holds so far.
\<close>

fun lazy_dot_star :: "(string \<Rightarrow> bool) \<Rightarrow> string \<Rightarrow> string \<Rightarrow> string option" where
  "lazy_dot_star k acc [] = (if k [] then Some acc else None)"
| "lazy_dot_star k acc (c # cs) =
     (if k (c # cs) then Some acc
      else if c = CHR 0x0A \<or> c = CHR 0x0D then None
      else lazy_dot_star k (acc @ [c]) cs)"

text \<open>
  The result of \<^verbatim>\<open>ABSOLUTE_PATH_REG.test(val)\<close>: \<open>None\<close> when the pattern does not
  match, otherwise the text of the group, \<^verbatim>\<open>RegExp.$1\<close>. Nothing follows the group in
  the pattern, so its continuation accepts any rest.
\<close>

definition ABSOLUTE_PATH_REG :: "string \<Rightarrow> string option" where
  "ABSOLUTE_PATH_REG val =
     (let slashes = (\<lambda>s. case match_ci ''//'' s of
                           None \<Rightarrow> None
                         | Some r \<Rightarrow> lazy_dot_star (\<lambda>_. True) [] r);
          colon = (\<lambda>s. case match_ci '':'' s of None \<Rightarrow> None | Some r \<Rightarrow> slashes r);
          scheme =
            (case match_ci ''http'' val of
               None \<Rightarrow> None
             | Some r \<Rightarrow>
                 (case (case match_ci ''s'' r of None \<Rightarrow> None | Some r' \<Rightarrow> colon r') of
                    Some g \<Rightarrow> Some g
                  | None \<Rightarrow> colon r))
      in case scheme of Some g \<Rightarrow> Some g | None \<Rightarrow> slashes val)"

subsection \<open>Setters\<close>

definition setHeader :: "string \<Rightarrow> string \<Rightarrow> Request \<Rightarrow> Request" where
  "setHeader key val r = r\<lparr>r_headers := (r_headers r)(key \<mapsto> val)\<rparr>"

definition removeHeader :: "string \<Rightarrow> Request \<Rightarrow> Request" where
  "removeHeader key r = r\<lparr>r_headers := (r_headers r)(key := None)\<rparr>"

definition isQuery :: "Request \<Rightarrow> bool" where
  "isQuery r = (r_method r \<in> set [GET, HEAD])"

definition set_contentType :: "RequestContentType \<Rightarrow> Request \<Rightarrow> Request" where
  "set_contentType val r =
     (case val of
        CT_false \<Rightarrow> removeHeader ''Content-Type'' r
      | CT s \<Rightarrow> setHeader ''Content-Type'' s r)"

definition set_type :: "RequestType \<Rightarrow> Request \<Rightarrow> Request" where
  "set_type val r =
     (let r1 = r\<lparr>r_type := val\<rparr>
      in if val = T_form then set_contentType CT_false r1
         else set_contentType (CT (contentTypes val)) r1)"

definition set_dataType :: "RequestDataType \<Rightarrow> Request \<Rightarrow> Request" where
  "set_dataType val r =
     (let r1 = r\<lparr>r_dataType := val\<rparr>;
          accept = contentTypes (dataType_key val)
      in setHeader ''Accept'' (if accept \<noteq> [] then accept else ''*/*'') r1)"

definition set_url :: "env \<Rightarrow> string \<Rightarrow> Request \<Rightarrow> Request" where
  "set_url E val r =
     (let r1 = r\<lparr>r_url := val\<rparr>
      in case ABSOLUTE_PATH_REG val of
           None \<Rightarrow> r1
         | Some domain \<Rightarrow> if domain \<noteq> hostname E then r1\<lparr>r_cors := True\<rparr> else r1)"

text \<open>\<^verbatim>\<open>/^\?/.test(data)\<close>\<close>

fun starts_with_question :: "string \<Rightarrow> bool" where
  "starts_with_question [] = False"
| "starts_with_question (c # cs) = (c = CHR ''?'')"

definition resolveURL :: "env \<Rightarrow> Request \<Rightarrow> string \<Rightarrow> jsval \<Rightarrow> string" where
  "resolveURL E r url data =
     (if isQuery r \<and> truthy data then
        (let d = (case data of JStr s \<Rightarrow> s | _ \<Rightarrow> qs_stringify E data)
         in url @ (if starts_with_question d then d else ''?'' @ d))
      else url)"

definition set_data :: "env \<Rightarrow> jsval \<Rightarrow> Request \<Rightarrow> Request" where
  "set_data E val r =
     (if isQuery r \<or> val = JNull \<or> val = JUndefined then r\<lparr>r_data := JNull\<rparr>
      else if r_type r = T_json then r\<lparr>r_data := JStr (JSON_stringify E val)\<rparr>
      else if r_type r = T_urlencoded then r\<lparr>r_data := JStr (qs_stringify E val)\<rparr>
      else r\<lparr>r_data := val\<rparr>)"

subsection \<open>The constructor\<close>

text \<open>
  \<^verbatim>\<open>if (options.x !== void 0) this.x = options.x\<close>, and \<^verbatim>\<open>if (options.x) this.x = options.x\<close>
  for an option whose values are all truthy under its type (a method, a type, a data
  type, a function, an object): the assignment \<open>f\<close> runs when the option is there.
\<close>

definition if_given :: "'a option \<Rightarrow> ('a \<Rightarrow> Request \<Rightarrow> Request) \<Rightarrow> Request \<Rightarrow> Request" where
  "if_given x f r = (case x of Some v \<Rightarrow> f v r | None \<Rightarrow> r)"

text \<open>\<^verbatim>\<open>constructor(url, data, options)\<close>, statement by statement.\<close>

definition Request_new :: "env \<Rightarrow> string \<Rightarrow> jsval \<Rightarrow> RequestOptions \<Rightarrow> Request" where
  "Request_new E url data options =
     (let r1 = if_given (o_method options) (\<lambda>m r. r\<lparr>r_method := m\<rparr>) Request_init;
          r2 = if_given (o_type options) set_type r1;
          r3 = if_given (o_dataType options) set_dataType r2;
          r4 = if_given (o_contentType options) set_contentType r3;
          r5 = if_given (o_timeout options) (\<lambda>t r. r\<lparr>r_timeout := max 0 t\<rparr>) r4;
          r6 = if_given (o_useXHR options) (\<lambda>b r. r\<lparr>r_useXHR := b\<rparr>) r5;
          r7 = if_given (o_credentials options) (\<lambda>b r. r\<lparr>r_credentials := b\<rparr>) r6;
          r8 = if_given (o_parse options) (\<lambda>p r. r\<lparr>r_parse := Some p\<rparr>) r7;
          r9 = set_url E (resolveURL E r8 url data) r8;
          r10 = set_data E data r9;
          r11 = (if \<not> r_cors r10 then r10\<lparr>r_credentials := True\<rparr> else r10);
          r12 = if_given (o_headers options) (\<lambda>h r. r\<lparr>r_headers := r_headers r ++ h\<rparr>) r11
      in r12)"

section \<open>Normalising a response\<close>

subsection \<open>Property access\<close>

text \<open>
  \<^verbatim>\<open>v.key\<close> for the keys the module reads (\<^verbatim>\<open>errormsg\<close>, \<^verbatim>\<open>errorcode\<close>, \<^verbatim>\<open>success\<close>,
  \<^verbatim>\<open>statusCode\<close>, \<^verbatim>\<open>errorCode\<close>, \<^verbatim>\<open>errorMessage\<close>, \<^verbatim>\<open>errorStack\<close>, \<^verbatim>\<open>data\<close>), none of
  which a prototype defines: reading from \<^verbatim>\<open>null\<close> or \<^verbatim>\<open>undefined\<close> throws a
  \<^verbatim>\<open>TypeError\<close>, an object gives its own property, anything else \<^verbatim>\<open>undefined\<close>.
\<close>

fun get_prop :: "jsval \<Rightarrow> string \<Rightarrow> thrown + jsval" where
  "get_prop JUndefined key = Inl TypeError"
| "get_prop JNull key = Inl TypeError"
| "get_prop (JObj kvs) key = Inr (case map_of kvs key of Some v \<Rightarrow> v | None \<Rightarrow> JUndefined)"
| "get_prop v key = Inr JUndefined"

text \<open>\<^verbatim>\<open>v.key = x\<close> on an object.\<close>

fun set_prop :: "string \<Rightarrow> jsval \<Rightarrow> jsval \<Rightarrow> jsval" where
  "set_prop key x (JObj kvs) = JObj (AList.update key x kvs)"
| "set_prop key x v = v"

text \<open>
  \<^verbatim>\<open>v.hasOwnProperty(key)\<close> for the keys \<^verbatim>\<open>success\<close> and \<^verbatim>\<open>data\<close>. The method is
  inherited; an object that has an own property of that name holds JSON data there, and the
  call throws.
\<close>

fun hasOwnProperty :: "jsval \<Rightarrow> string \<Rightarrow> thrown + bool" where
  "hasOwnProperty JUndefined key = Inl TypeError"
| "hasOwnProperty JNull key = Inl TypeError"
| "hasOwnProperty (JObj kvs) key =
     (if map_of kvs ''hasOwnProperty'' \<noteq> None then Inl TypeError
      else Inr (map_of kvs key \<noteq> None))"
| "hasOwnProperty v key = Inr False"

subsection \<open>The default parser\<close>

text \<open>The four assignments of the first branch of \<^verbatim>\<open>defaultParseResponse\<close>, in order.\<close>

definition fill_defaults :: "jsval \<Rightarrow> thrown + jsval" where
  "fill_defaults result =
     (case get_prop result ''statusCode'' of
        Inl e \<Rightarrow> Inl e
      | Inr sc \<Rightarrow>
          (let r1 = (if \<not> truthy sc
                     then set_prop ''statusCode'' (JNum REQUEST_SUCCESS_STATUS) result
                     else result)
           in case get_prop r1 ''errorCode'' of
                Inl e \<Rightarrow> Inl e
              | Inr ec \<Rightarrow>
                  (let r2 = (if \<not> truthy ec then set_prop ''errorCode'' (JNum 0) r1 else r1)
                   in case get_prop r2 ''errorMessage'' of
                        Inl e \<Rightarrow> Inl e
                      | Inr em \<Rightarrow>
                          (let r3 = (if em = JUndefined
                                     then set_prop ''errorMessage'' JNull r2 else r2)
                           in case get_prop r3 ''errorStack'' of
                                Inl e \<Rightarrow> Inl e
                              | Inr es \<Rightarrow>
                                  Inr (if es = JUndefined
                                       then set_prop ''errorStack'' JNull r3 else r3)))))"

definition defaultParseResponse :: "jsval \<Rightarrow> thrown + jsval" where
  "defaultParseResponse result =
     (case hasOwnProperty result ''success'' of
        Inl e \<Rightarrow> Inl e
      | Inr has_success \<Rightarrow>
          (case (if has_success then hasOwnProperty result ''data'' else Inr False) of
             Inl e \<Rightarrow> Inl e
           | Inr both \<Rightarrow>
               if both then fill_defaults result
               else Inr (JObj [(''success'', JBool True),
                               (''statusCode'', JNum REQUEST_SUCCESS_STATUS),
                               (''errorCode'', JNum 0),
                               (''errorMessage'', JNull),
                               (''errorStack'', JNull),
                               (''data'', result)])))"

subsection \<open>The method \<^verbatim>\<open>parseResponse\<close>\<close>

text \<open>
  \<open>global\<close> is the module variable \<^verbatim>\<open>responseParseFunction\<close>, set by the exported
  \<^verbatim>\<open>parseResponse(cb)\<close>. \<open>Inl\<close> is what the method throws.
\<close>

definition contract_failure :: "jsval \<Rightarrow> thrown" where
  "contract_failure responseData =
     (case get_prop responseData ''statusCode'' of
        Inl e \<Rightarrow> e
      | Inr sc \<Rightarrow>
          (case get_prop responseData ''errorCode'' of
             Inl e \<Rightarrow> e
           | Inr ec \<Rightarrow>
               (case ToString ec of
                  None \<Rightarrow> TypeError
                | Some c \<Rightarrow>
                    (case get_prop responseData ''errorMessage'' of
                       Inl e \<Rightarrow> e
                     | Inr em \<Rightarrow>
                         (case get_prop responseData ''errorStack'' of
                            Inl e \<Rightarrow> e
                          | Inr es \<Rightarrow>
                              (case new_RequestError sc (JStr c)
                                      (js_or em (JStr REQUEST_ERROR_MSG)) es of
                                 Inl e \<Rightarrow> e
                               | Inr err \<Rightarrow> ReqError err))))))"

definition parseResponse :: "ParseFunction option \<Rightarrow> Request \<Rightarrow> jsval \<Rightarrow> thrown + jsval" where
  "parseResponse global r result =
     (if r_dataType r = DT_json then
        (let parse = (case r_parse r of
                        Some p \<Rightarrow> p
                      | None \<Rightarrow> (case global of Some g \<Rightarrow> g | None \<Rightarrow> defaultParseResponse))
         in case parse result of
              Inl e \<Rightarrow> Inl e
            | Inr responseData \<Rightarrow>
                (case get_prop responseData ''success'' of
                   Inl e \<Rightarrow> Inl e
                 | Inr s \<Rightarrow>
                     if \<not> truthy s then Inl (contract_failure responseData)
                     else get_prop responseData ''data''))
      else Inr result)"

subsection \<open>Classifying the HTTP status\<close>

text \<open>
  The test both load handlers apply to the status, and the failure both build:
  \<^verbatim>\<open>const msg = result.errormsg || statusText || REQUEST_ERROR_MSG\<close>, then
  \<^verbatim>\<open>new RequestError(status, result.errorcode || '' + status, msg)\<close>.
\<close>

definition exceptional_status :: "int \<Rightarrow> bool" where
  "exceptional_status s =
     (s < REQUEST_SUCCESS_STATUS \<or> (s \<ge> REQUEST_300_STATUS \<and> s \<noteq> REQUEST_CACHE_STATUS))"

definition status_failure :: "jsval \<Rightarrow> int \<Rightarrow> string \<Rightarrow> thrown + RequestError" where
  "status_failure result s statusText =
     (case get_prop result ''errormsg'' of
        Inl e \<Rightarrow> Inl e
      | Inr em \<Rightarrow>
          (let msg = js_or (js_or em (JStr statusText)) (JStr REQUEST_ERROR_MSG)
           in case get_prop result ''errorcode'' of
                Inl e \<Rightarrow> Inl e
              | Inr ec \<Rightarrow>
                  new_RequestError (JNum s) (js_or ec (JStr (string_of_int s))) msg JUndefined))"

section \<open>The fetch transport\<close>

text \<open>
  A completed \<^verbatim>\<open>Response\<close>: its status line and what \<^verbatim>\<open>res.json()\<close> and \<^verbatim>\<open>res.text()\<close>
  settle with (\<open>None\<close>: the promise rejects, as \<^verbatim>\<open>json()\<close> does on a body that is empty or
  not JSON).
\<close>

record fetch_response =
  res_status :: int
  res_statusText :: string
  res_json :: "jsval option"
  res_text :: "string option"

text \<open>\<^verbatim>\<open>parseFetchData\<close> with \<^verbatim>\<open>parseFetchJSONData\<close> and \<^verbatim>\<open>parseFetchTextData\<close>.\<close>

definition parseFetchData :: "Request \<Rightarrow> fetch_response \<Rightarrow> jsval" where
  "parseFetchData r res =
     (case r_dataType r of
        DT_json \<Rightarrow> (case res_json res of Some v \<Rightarrow> v | None \<Rightarrow> JObj [])
      | DT_text \<Rightarrow> (case res_text res of Some t \<Rightarrow> JStr t | None \<Rightarrow> JStr []))"

text \<open>
  \<^verbatim>\<open>onFetchLoad\<close>: how the promise it returns settles. An exception inside the
  \<^verbatim>\<open>then\<close> callback reaches \<^verbatim>\<open>.catch(reject)\<close>.
\<close>

definition onFetchLoad :: "ParseFunction option \<Rightarrow> Request \<Rightarrow> fetch_response \<Rightarrow> outcome" where
  "onFetchLoad global r res =
     (let s = res_status res;
          result = parseFetchData r res
      in if exceptional_status s then
           (case status_failure result s (res_statusText res) of
              Inl e \<Rightarrow> Rejected e
            | Inr err \<Rightarrow> Rejected (ReqError err))
         else
           (case parseResponse global r result of
              Inl e \<Rightarrow> Rejected e
            | Inr d \<Rightarrow> Resolved d))"

text \<open>
  \<^verbatim>\<open>const settings: RequestInit\<close> of \<^verbatim>\<open>requestByFetchApi\<close>; \<open>None\<close> is \<^verbatim>\<open>undefined\<close>.
\<close>

record fetch_settings =
  s_body :: "jsval option"
  s_method :: RequestMethod
  s_headers :: "string \<rightharpoonup> string"
  s_credentials :: "string option"
  s_mode :: "string option"
  s_cache :: string

definition fetch_settings_of :: "Request \<Rightarrow> fetch_settings" where
  "fetch_settings_of r =
     \<lparr>s_body = (if r_data r \<noteq> JNull \<and> r_data r \<noteq> JUndefined then Some (r_data r) else None),
      s_method = r_method r,
      s_headers = r_headers r,
      s_credentials = (if r_credentials r then Some ''include'' else None),
      s_mode = (if r_cors r then Some ''cors'' else None),
      s_cache = ''default''\<rparr>"

text \<open>The promises \<^verbatim>\<open>requestByFetchApi\<close> pushes onto \<^verbatim>\<open>tasks\<close> and races.\<close>

datatype task = TimeoutTask int | AbortTask | FetchTask

definition fetch_tasks :: "Request \<Rightarrow> task list" where
  "fetch_tasks r =
     (if r_timeout r > 0 then [TimeoutTask (r_timeout r)] else []) @ [AbortTask] @ [FetchTask]"

section \<open>The XMLHttpRequest transport\<close>

text \<open>
  The \<^verbatim>\<open>XMLHttpRequest\<close> that \<^verbatim>\<open>requestByXHR\<close> sets up, with the promise wrapped around
  it: \<open>xhr\<close> says that \<^verbatim>\<open>this.xhr\<close> holds the object, the four \<open>on...\<close> fields that a
  handler is attached.
\<close>

record xhr_state =
  xhr :: bool
  withCredentials :: bool
  opened :: "RequestMethod \<times> string"
  requestHeaders :: "string \<rightharpoonup> string"
  progress_listener :: bool
  xhr_timeout :: int
  onerror :: bool
  onabort :: bool
  ontimeout :: bool
  onload :: bool
  sent :: jsval
  promise :: outcome

definition requestByXHR :: "Request \<Rightarrow> xhr_state" where
  "requestByXHR r =
     \<lparr>xhr = True,
      withCredentials = r_credentials r,
      opened = (r_method r, r_url r),
      requestHeaders = r_headers r,
      progress_listener = True,
      xhr_timeout = (if r_timeout r > 0 then r_timeout r else 0),
      onerror = True,
      onabort = True,
      ontimeout = (r_timeout r > 0),
      onload = True,
      sent = r_data r,
      promise = Pending\<rparr>"

text \<open>\<^verbatim>\<open>resolve\<close> and \<^verbatim>\<open>reject\<close> of the promise: only the first call settles it.\<close>

definition resolve :: "jsval \<Rightarrow> xhr_state \<Rightarrow> xhr_state" where
  "resolve v st = (if promise st = Pending then st\<lparr>promise := Resolved v\<rparr> else st)"

definition reject :: "thrown \<Rightarrow> xhr_state \<Rightarrow> xhr_state" where
  "reject e st = (if promise st = Pending then st\<lparr>promise := Rejected e\<rparr> else st)"

definition finallyXHR :: "xhr_state \<Rightarrow> xhr_state" where
  "finallyXHR st =
     (if \<not> xhr st then st
      else st\<lparr>progress_listener := False, ontimeout := False, onload := False,
              onerror := False, onabort := False, xhr := False\<rparr>)"

text \<open>
  The handlers. Each returns the exception that leaves it uncaught, if any, and the
  state it leaves behind.
\<close>

definition fixed_failure ::
  "int \<Rightarrow> string \<Rightarrow> string \<Rightarrow> xhr_state \<Rightarrow> thrown option \<times> xhr_state" where
  "fixed_failure s c m st =
     (case new_RequestError (JNum s) (JStr c) (JStr m) JUndefined of
        Inl e \<Rightarrow> (Some e, st)
      | Inr err \<Rightarrow> (None, finallyXHR (reject (ReqError err) st)))"

definition onXHRError :: "xhr_state \<Rightarrow> thrown option \<times> xhr_state" where
  "onXHRError st = fixed_failure REQUEST_ERROR_STATUS REQUEST_ERROR_CODE REQUEST_ERROR_MSG st"

definition onXHRAbort :: "xhr_state \<Rightarrow> thrown option \<times> xhr_state" where
  "onXHRAbort st = fixed_failure REQUEST_ABORT_STATUS REQUEST_ABORT_CODE REQUEST_ABORT_MSG st"

definition onXHRTimeout :: "xhr_state \<Rightarrow> thrown option \<times> xhr_state" where
  "onXHRTimeout st =
     fixed_failure REQUEST_TIMEOUT_STATUS REQUEST_TIMEOUT_CODE REQUEST_TIMEOUT_MSG st"

text \<open>What the handler of \<^verbatim>\<open>load\<close> reads from the \<^verbatim>\<open>XMLHttpRequest\<close>.\<close>

record xhr_response =
  readyState :: nat
  xhr_status :: int
  xhr_statusText :: string
  responseText :: string

text \<open>
  \<open>JSON_parse\<close> is the platform's \<^verbatim>\<open>JSON.parse\<close>: \<open>None\<close> when it throws a
  \<^verbatim>\<open>SyntaxError\<close>.
\<close>

definition xhr_result :: "(string \<Rightarrow> jsval option) \<Rightarrow> Request \<Rightarrow> string \<Rightarrow> thrown + jsval" where
  "xhr_result JSON_parse r txt =
     (if r_dataType r = DT_json then
        (if txt \<noteq> [] then
           (case JSON_parse txt of None \<Rightarrow> Inl SyntaxError | Some v \<Rightarrow> Inr v)
         else Inr (JObj []))
      else Inr (JStr txt))"

definition onXHRLoad ::
  "(string \<Rightarrow> jsval option) \<Rightarrow> ParseFunction option \<Rightarrow> Request \<Rightarrow> xhr_response \<Rightarrow>
     xhr_state \<Rightarrow> thrown option \<times> xhr_state" where
  "onXHRLoad JSON_parse global r x st =
     (if \<not> xhr st then (None, st)
      else if readyState x = 4 then
        (let st1 = finallyXHR st
         in case xhr_result JSON_parse r (responseText x) of
              Inl e \<Rightarrow> (Some e, st1)
            | Inr result \<Rightarrow>
                if exceptional_status (xhr_status x) then
                  (case status_failure result (xhr_status x) (xhr_statusText x) of
                     Inl e \<Rightarrow> (Some e, st1)
                   | Inr err \<Rightarrow> (None, reject (ReqError err) st1))
                else
                  (case parseResponse global r result of
                     Inl e \<Rightarrow> (None, reject e st1)
                   | Inr d \<Rightarrow> (None, resolve d st1)))
      else (None, st))"

text \<open>
  An event of the \<^verbatim>\<open>XMLHttpRequest\<close> runs the handler attached for it, if one still is.
\<close>

datatype xhr_event = Load xhr_response | Error | Abort | Timeout

definition dispatch ::
  "(string \<Rightarrow> jsval option) \<Rightarrow> ParseFunction option \<Rightarrow> Request \<Rightarrow> xhr_event \<Rightarrow>
     xhr_state \<Rightarrow> thrown option \<times> xhr_state" where
  "dispatch JSON_parse global r ev st =
     (case ev of
        Load x \<Rightarrow> if onload st then onXHRLoad JSON_parse global r x st else (None, st)
      | Error \<Rightarrow> if onerror st then onXHRError st else (None, st)
      | Abort \<Rightarrow> if onabort st then onXHRAbort st else (None, st)
      | Timeout \<Rightarrow> if ontimeout st then onXHRTimeout st else (None, st))"

text \<open>\<^verbatim>\<open>request()\<close> chooses the transport; \<open>has_fetch\<close> says that \<^verbatim>\<open>window.fetch\<close> exists.\<close>

datatype transport = FetchApi | XHR

definition request :: "bool \<Rightarrow> Request \<Rightarrow> transport" where
  "request has_fetch r = (if has_fetch \<and> \<not> r_useXHR r then FetchApi else XHR)"


section \<open>The exported entries\<close>

subsection \<open>The generic entry\<close>

text \<open>
  The calls of \<^verbatim>\<open>eventEmitter.fire\<close>, with their payloads: \<^verbatim>\<open>{ data, req }\<close>,
  \<^verbatim>\<open>{ error, req }\<close> and \<^verbatim>\<open>{ error, data, req }\<close>.
\<close>

datatype notification =
    Fire_success jsval Request
  | Fire_error thrown Request
  | Fire_complete "thrown option" jsval Request

text \<open>
  The event emitter is a package of its own. All that is taken of it here is whether a call
  of \<^verbatim>\<open>fire\<close> returns (\<open>None\<close>) or lets an exception of a listener through.
\<close>

type_synonym emitter = "notification \<Rightarrow> thrown option"

text \<open>
  The callback of \<^verbatim>\<open>.catch\<close> in \<^verbatim>\<open>fetch\<close>: the calls of \<^verbatim>\<open>fire\<close> it makes, in order, and
  how the promise that \<^verbatim>\<open>fetch\<close> returns settles.
\<close>

definition fetch_catch :: "emitter \<Rightarrow> Request \<Rightarrow> thrown \<Rightarrow> notification list \<times> outcome" where
  "fetch_catch fire req error =
     (case fire (Fire_error error req) of
        Some e \<Rightarrow> ([Fire_error error req], Rejected e)
      | None \<Rightarrow>
          (case fire (Fire_complete (Some error) JNull req) of
             Some e \<Rightarrow>
               ([Fire_error error req, Fire_complete (Some error) JNull req], Rejected e)
           | None \<Rightarrow>
               ([Fire_error error req, Fire_complete (Some error) JNull req], Rejected error)))"

text \<open>
  The callback of \<^verbatim>\<open>.then\<close>; \<^verbatim>\<open>.catch\<close> is chained behind it, so an exception in it
  runs the callback above.
\<close>

definition fetch_then :: "emitter \<Rightarrow> Request \<Rightarrow> jsval \<Rightarrow> notification list \<times> outcome" where
  "fetch_then fire req data =
     (case fire (Fire_success data req) of
        Some e \<Rightarrow>
          (case fetch_catch fire req e of (ns, out) \<Rightarrow> (Fire_success data req # ns, out))
      | None \<Rightarrow>
          (case fire (Fire_complete None data req) of
             Some e \<Rightarrow>
               (case fetch_catch fire req e of
                  (ns, out) \<Rightarrow> ([Fire_success data req, Fire_complete None data req] @ ns, out))
           | None \<Rightarrow> ([Fire_success data req, Fire_complete None data req], Resolved data)))"

text \<open>
  \<^verbatim>\<open>fetch(url, data, options)\<close>. \<open>net\<close> is how \<^verbatim>\<open>req.request()\<close> settles for the request
  built: the transport, the server and the network.
\<close>

definition fetch ::
  "env \<Rightarrow> emitter \<Rightarrow> (Request \<Rightarrow> outcome) \<Rightarrow> string \<Rightarrow> jsval \<Rightarrow> RequestOptions \<Rightarrow>
     notification list \<times> outcome" where
  "fetch E fire net url data options =
     (let req = Request_new E url data options
      in case net req of
           Pending \<Rightarrow> ([], Pending)
         | Resolved d \<Rightarrow> fetch_then fire req d
         | Rejected error \<Rightarrow> fetch_catch fire req error)"

subsection \<open>The entries for one method\<close>

text \<open>
  Each of them assigns to a property of the options object it was given and passes the
  same object on. The objects live in a store; a caller holds the address \<open>a\<close> of its
  options object, and the entry returns the store it leaves. (A call without options gets a
  fresh \<^verbatim>\<open>{}\<close>, an address holding \<open>no_options\<close>.)
\<close>

type_synonym store = "nat \<Rightarrow> RequestOptions"

type_synonym 'a entry =
  "env \<Rightarrow> emitter \<Rightarrow> (Request \<Rightarrow> outcome) \<Rightarrow> string \<Rightarrow> 'a"

definition get :: "(jsval \<Rightarrow> nat \<Rightarrow> store \<Rightarrow> store \<times> notification list \<times> outcome) entry" where
  "get E fire net url data a h =
     (let h1 = h(a := (h a)\<lparr>o_method := Some GET\<rparr>)
      in (h1, fetch E fire net url data (h1 a)))"

definition head :: "(jsval \<Rightarrow> nat \<Rightarrow> store \<Rightarrow> store \<times> notification list \<times> outcome) entry" where
  "head E fire net url data a h =
     (let h1 = h(a := (h a)\<lparr>o_method := Some HEAD\<rparr>)
      in (h1, fetch E fire net url data (h1 a)))"

definition post :: "(jsval \<Rightarrow> nat \<Rightarrow> store \<Rightarrow> store \<times> notification list \<times> outcome) entry" where
  "post E fire net url data a h =
     (let h1 = h(a := (h a)\<lparr>o_method := Some POST\<rparr>)
      in (h1, fetch E fire net url data (h1 a)))"

definition put :: "(jsval \<Rightarrow> nat \<Rightarrow> store \<Rightarrow> store \<times> notification list \<times> outcome) entry" where
  "put E fire net url data a h =
     (let h1 = h(a := (h a)\<lparr>o_method := Some PUT\<rparr>)
      in (h1, fetch E fire net url data (h1 a)))"

definition patch :: "(jsval \<Rightarrow> nat \<Rightarrow> store \<Rightarrow> store \<times> notification list \<times> outcome) entry" where
  "patch E fire net url data a h =
     (let h1 = h(a := (h a)\<lparr>o_method := Some PATCH\<rparr>)
      in (h1, fetch E fire net url data (h1 a)))"

definition del :: "(jsval \<Rightarrow> nat \<Rightarrow> store \<Rightarrow> store \<times> notification list \<times> outcome) entry" where
  "del E fire net url data a h =
     (let h1 = h(a := (h a)\<lparr>o_method := Some DELETE\<rparr>)
      in (h1, fetch E fire net url data (h1 a)))"

definition options :: "(nat \<Rightarrow> store \<Rightarrow> store \<times> notification list \<times> outcome) entry" where
  "options E fire net url a h =
     (let h1 = h(a := (h a)\<lparr>o_method := Some OPTIONS\<rparr>)
      in (h1, fetch E fire net url JNull (h1 a)))"

definition upload :: "(jsval \<Rightarrow> nat \<Rightarrow> store \<Rightarrow> store \<times> notification list \<times> outcome) entry" where
  "upload E fire net url data a h =
     (let h1 = h(a := (h a)\<lparr>o_type := Some T_form\<rparr>)
      in post E fire net url data a h1)"


section \<open>A page for the examples\<close>

text \<open>
  The closed examples below need a concrete environment: the page of the repository's
  tests, a JSDOM document at \<^verbatim>\<open>http://localhost:8080/\<close>. The two serialisers are not part
  of the repository; here they return the text of the one payload an example hands them
  (\<^verbatim>\<open>{ sex: true }\<close> as a query, \<^verbatim>\<open>{}\<close> as JSON).
\<close>


definition example_page :: env where
  "example_page =
     \<lparr>hostname = ''localhost'', qs_stringify = (\<lambda>_. ''sex=true''), JSON_stringify = (\<lambda>_. ''{}'')\<rparr>"


section \<open>Facts about the setters and the constructor\<close>


lemma case_option_same [simp]: "(case x of None \<Rightarrow> a | Some y \<Rightarrow> a) = a"
  by (cases x) simp_all

lemma setHeader_fields [simp]:
  "r_url (setHeader k v r) = r_url r"
  "r_data (setHeader k v r) = r_data r"
  "r_type (setHeader k v r) = r_type r"
  "r_dataType (setHeader k v r) = r_dataType r"
  "r_headers (setHeader k v r) = (r_headers r)(k \<mapsto> v)"
  "r_method (setHeader k v r) = r_method r"
  "r_timeout (setHeader k v r) = r_timeout r"
  "r_useXHR (setHeader k v r) = r_useXHR r"
  "r_cors (setHeader k v r) = r_cors r"
  "r_credentials (setHeader k v r) = r_credentials r"
  "r_parse (setHeader k v r) = r_parse r"
  by (simp_all add: setHeader_def)

lemma removeHeader_fields [simp]:
  "r_url (removeHeader k r) = r_url r"
  "r_data (removeHeader k r) = r_data r"
  "r_type (removeHeader k r) = r_type r"
  "r_dataType (removeHeader k r) = r_dataType r"
  "r_headers (removeHeader k r) = (r_headers r)(k := None)"
  "r_method (removeHeader k r) = r_method r"
  "r_timeout (removeHeader k r) = r_timeout r"
  "r_useXHR (removeHeader k r) = r_useXHR r"
  "r_cors (removeHeader k r) = r_cors r"
  "r_credentials (removeHeader k r) = r_credentials r"
  "r_parse (removeHeader k r) = r_parse r"
  by (simp_all add: removeHeader_def)

lemma set_contentType_fields [simp]:
  "r_url (set_contentType c r) = r_url r"
  "r_data (set_contentType c r) = r_data r"
  "r_type (set_contentType c r) = r_type r"
  "r_dataType (set_contentType c r) = r_dataType r"
  "r_headers (set_contentType c r) =
     (case c of CT_false \<Rightarrow> (r_headers r)(''Content-Type'' := None)
              | CT s \<Rightarrow> (r_headers r)(''Content-Type'' \<mapsto> s))"
  "r_method (set_contentType c r) = r_method r"
  "r_timeout (set_contentType c r) = r_timeout r"
  "r_useXHR (set_contentType c r) = r_useXHR r"
  "r_cors (set_contentType c r) = r_cors r"
  "r_credentials (set_contentType c r) = r_credentials r"
  "r_parse (set_contentType c r) = r_parse r"
  by (simp_all add: set_contentType_def split: RequestContentType.splits)

lemma set_type_fields [simp]:
  "r_url (set_type t r) = r_url r"
  "r_data (set_type t r) = r_data r"
  "r_type (set_type t r) = t"
  "r_dataType (set_type t r) = r_dataType r"
  "r_headers (set_type t r) =
     (if t = T_form then (r_headers r)(''Content-Type'' := None)
      else (r_headers r)(''Content-Type'' \<mapsto> contentTypes t))"
  "r_method (set_type t r) = r_method r"
  "r_timeout (set_type t r) = r_timeout r"
  "r_useXHR (set_type t r) = r_useXHR r"
  "r_cors (set_type t r) = r_cors r"
  "r_credentials (set_type t r) = r_credentials r"
  "r_parse (set_type t r) = r_parse r"
  by (simp_all add: set_type_def Let_def)

lemma set_dataType_fields [simp]:
  "r_url (set_dataType d r) = r_url r"
  "r_data (set_dataType d r) = r_data r"
  "r_type (set_dataType d r) = r_type r"
  "r_dataType (set_dataType d r) = d"
  "r_headers (set_dataType d r) = (r_headers r)(''Accept'' \<mapsto> contentTypes (dataType_key d))"
  "r_method (set_dataType d r) = r_method r"
  "r_timeout (set_dataType d r) = r_timeout r"
  "r_useXHR (set_dataType d r) = r_useXHR r"
  "r_cors (set_dataType d r) = r_cors r"
  "r_credentials (set_dataType d r) = r_credentials r"
  "r_parse (set_dataType d r) = r_parse r"
  by (cases d; simp add: set_dataType_def Let_def)+

lemma set_url_fields [simp]:
  "r_url (set_url E u r) = u"
  "r_data (set_url E u r) = r_data r"
  "r_type (set_url E u r) = r_type r"
  "r_dataType (set_url E u r) = r_dataType r"
  "r_headers (set_url E u r) = r_headers r"
  "r_method (set_url E u r) = r_method r"
  "r_timeout (set_url E u r) = r_timeout r"
  "r_useXHR (set_url E u r) = r_useXHR r"
  "r_cors (set_url E u r) =
     (r_cors r \<or> (\<exists>d. ABSOLUTE_PATH_REG u = Some d \<and> d \<noteq> hostname E))"
  "r_credentials (set_url E u r) = r_credentials r"
  "r_parse (set_url E u r) = r_parse r"
  by (auto simp add: set_url_def Let_def split: option.splits)

lemma isQuery_cong [simp]:
  "isQuery (set_url E u r) = isQuery r"
  "isQuery (set_type t r) = isQuery r"
  "isQuery (set_dataType d r) = isQuery r"
  "isQuery (set_contentType c r) = isQuery r"
  by (simp_all add: isQuery_def)

lemma set_data_fields [simp]:
  "r_url (set_data E v r) = r_url r"
  "r_data (set_data E v r) =
     (if isQuery r \<or> v = JNull \<or> v = JUndefined then JNull
      else if r_type r = T_json then JStr (JSON_stringify E v)
      else if r_type r = T_urlencoded then JStr (qs_stringify E v)
      else v)"
  "r_type (set_data E v r) = r_type r"
  "r_dataType (set_data E v r) = r_dataType r"
  "r_headers (set_data E v r) = r_headers r"
  "r_method (set_data E v r) = r_method r"
  "r_timeout (set_data E v r) = r_timeout r"
  "r_useXHR (set_data E v r) = r_useXHR r"
  "r_cors (set_data E v r) = r_cors r"
  "r_credentials (set_data E v r) = r_credentials r"
  "r_parse (set_data E v r) = r_parse r"
  by (simp_all add: set_data_def)


lemma if_given_simps [simp]:
  "if_given None f r = r"
  "if_given (Some v) f r = f v r"
  by (simp_all add: if_given_def)

lemma if_given_keeps:
  "(\<And>v r. sel (f v r) = sel r) \<Longrightarrow> sel (if_given x f r) = sel r"
  by (cases x) simp_all

lemmas if_given_keep =
  if_given_keeps [of r_url] if_given_keeps [of r_data] if_given_keeps [of r_type]
  if_given_keeps [of r_dataType] if_given_keeps [of r_headers] if_given_keeps [of r_method]
  if_given_keeps [of r_timeout] if_given_keeps [of r_useXHR] if_given_keeps [of r_cors]
  if_given_keeps [of r_credentials] if_given_keeps [of r_parse] if_given_keeps [of isQuery]



lemma new_timeout:
  "r_timeout (Request_new E url data opts) = (case o_timeout opts of None \<Rightarrow> 0 | Some t \<Rightarrow> max 0 t)"
  by (cases "o_timeout opts") (simp_all add: Request_new_def Let_def if_given_keep Request_init_def)

lemma new_method:
  "r_method (Request_new E url data opts) = (case o_method opts of None \<Rightarrow> GET | Some m \<Rightarrow> m)"
  by (cases "o_method opts") (simp_all add: Request_new_def Let_def if_given_keep Request_init_def)

lemma new_type:
  "r_type (Request_new E url data opts) = (case o_type opts of None \<Rightarrow> T_json | Some t \<Rightarrow> t)"
  by (cases "o_type opts") (simp_all add: Request_new_def Let_def if_given_keep Request_init_def)

lemma new_dataType:
  "r_dataType (Request_new E url data opts) =
     (case o_dataType opts of None \<Rightarrow> DT_json | Some t \<Rightarrow> t)"
  by (cases "o_dataType opts") (simp_all add: Request_new_def Let_def if_given_keep Request_init_def)

lemma new_parse:
  "r_parse (Request_new E url data opts) = o_parse opts"
  by (cases "o_parse opts") (simp_all add: Request_new_def Let_def if_given_keep Request_init_def)


lemma new_isQuery:
  "isQuery (Request_new E url data opts) =
     (o_method opts = None \<or> o_method opts = Some GET \<or> o_method opts = Some HEAD)"
  by (cases "o_method opts") (auto simp add: isQuery_def new_method)

lemma new_url:
  "r_url (Request_new E url data opts) =
     (if isQuery (Request_new E url data opts) \<and> truthy data then
        (let d = (case data of JStr s \<Rightarrow> s | _ \<Rightarrow> qs_stringify E data)
         in url @ (if starts_with_question d then d else ''?'' @ d))
      else url)"
  unfolding new_isQuery
  by (cases "o_method opts")
    (auto simp add: Request_new_def Let_def if_given_keep Request_init_def resolveURL_def
      isQuery_def)

lemma new_data_query:
  "isQuery (Request_new E url data opts) \<Longrightarrow> r_data (Request_new E url data opts) = JNull"
  unfolding new_isQuery
  by (cases "o_method opts")
    (auto simp add: Request_new_def Let_def if_given_keep Request_init_def isQuery_def)

lemma new_cors:
  "r_cors (Request_new E url data opts) =
     (\<exists>d. ABSOLUTE_PATH_REG (r_url (Request_new E url data opts)) = Some d \<and> d \<noteq> hostname E)"
  by (simp add: Request_new_def Let_def if_given_keep Request_init_def resolveURL_def isQuery_def)

lemma new_credentials:
  "r_credentials (Request_new E url data opts) =
     (if r_cors (Request_new E url data opts)
      then (case o_credentials opts of None \<Rightarrow> False | Some b \<Rightarrow> b) else True)"
  by (cases "o_credentials opts")
     (auto simp add: Request_new_def Let_def if_given_keep Request_init_def resolveURL_def
        isQuery_def)

lemma new_headers_given:
  "o_headers opts = Some h \<Longrightarrow> h k = Some v \<Longrightarrow>
     r_headers (Request_new E url data opts) k = Some v"
  by (simp add: Request_new_def Let_def if_given_keep Request_init_def map_add_def)

lemma new_headers_form:
  "o_type opts = Some T_form \<Longrightarrow>
   o_contentType opts = None \<or> o_contentType opts = Some CT_false \<Longrightarrow>
   (case o_headers opts of None \<Rightarrow> True | Some h \<Rightarrow> h ''Content-Type'' = None) \<Longrightarrow>
     r_headers (Request_new E url data opts) ''Content-Type'' = None"
  by (cases "o_headers opts"; cases "o_dataType opts")
     (auto simp add: Request_new_def Let_def if_given_keep Request_init_def map_add_def)


section \<open>The claims\<close>

subsection \<open>C7: query methods\<close>

text \<open>
  C7. For a request whose method is \<^verbatim>\<open>GET\<close> or \<^verbatim>\<open>HEAD\<close> (\<open>isQuery\<close>): a non-empty string
  payload is appended to the URL as it is, behind a \<^verbatim>\<open>?\<close> unless it starts with one; an
  object payload is serialised by \<^verbatim>\<open>qs.stringify\<close> and appended the same way; and the body is
  \<^verbatim>\<open>null\<close>: the fetch settings carry no body and \<^verbatim>\<open>xhr.send\<close> receives \<^verbatim>\<open>null\<close>.
\<close>

theorem query_methods_resolve_url:
  assumes "isQuery (Request_new E url data opts)"
  shows "(\<forall>s. data = JStr s \<and> s \<noteq> [] \<longrightarrow>
            r_url (Request_new E url data opts) =
              url @ (if starts_with_question s then s else ''?'' @ s))
       \<and> (\<forall>kvs. data = JObj kvs \<longrightarrow>
            r_url (Request_new E url data opts) =
              url @ (if starts_with_question (qs_stringify E data) then qs_stringify E data
                     else ''?'' @ qs_stringify E data))
       \<and> r_data (Request_new E url data opts) = JNull
       \<and> s_body (fetch_settings_of (Request_new E url data opts)) = None
       \<and> sent (requestByXHR (Request_new E url data opts)) = JNull"
  using assms
  by (simp add: new_url new_data_query fetch_settings_of_def requestByXHR_def new_isQuery)

text \<open>The theorem at three payloads of the tests, sent with \<^verbatim>\<open>HEAD\<close>.\<close>

lemma example_isQuery:
  "isQuery (Request_new example_page u d (no_options\<lparr>o_method := Some HEAD\<rparr>))"
  by (simp add: new_isQuery no_options_def)

theorem query_methods_resolve_url_witness:
  "isQuery (Request_new example_page ''/api/user/1234'' (JStr ''?sex=true'')
      (no_options\<lparr>o_method := Some HEAD\<rparr>))
   \<and> r_url (Request_new example_page ''/api/user/1234'' (JStr ''?sex=true'')
      (no_options\<lparr>o_method := Some HEAD\<rparr>)) = ''/api/user/1234?sex=true''
   \<and> r_url (Request_new example_page ''/api/user/1234'' (JStr ''sex=true'')
      (no_options\<lparr>o_method := Some HEAD\<rparr>)) = ''/api/user/1234?sex=true''
   \<and> r_url (Request_new example_page ''/api/user/1234'' (JObj [(''sex'', JBool True)])
      (no_options\<lparr>o_method := Some HEAD\<rparr>)) = ''/api/user/1234?sex=true''
   \<and> r_data (Request_new example_page ''/api/user/1234'' (JObj [(''sex'', JBool True)])
      (no_options\<lparr>o_method := Some HEAD\<rparr>)) = JNull"
  using
    query_methods_resolve_url [OF example_isQuery [of "''/api/user/1234''" "JStr ''?sex=true''"]]
    query_methods_resolve_url [OF example_isQuery [of "''/api/user/1234''" "JStr ''sex=true''"]]
    query_methods_resolve_url [OF example_isQuery
       [of "''/api/user/1234''" "JObj [(''sex'', JBool True)]"]]
    example_isQuery [of "''/api/user/1234''" "JStr ''?sex=true''"]
  by (simp add: example_page_def)

subsection \<open>C10: a negative timeout\<close>

text \<open>
  C10. A negative \<^verbatim>\<open>timeout\<close> option leaves the request with timeout 0 (the constructor is
  a total function: nothing is raised). A request with timeout 0 races only the abort and
  the fetch promise, and on the other transport neither \<^verbatim>\<open>xhr.timeout\<close> nor
  \<^verbatim>\<open>xhr.ontimeout\<close> is set, so a timeout event finds no handler.
\<close>

theorem negative_timeout_is_no_timeout:
  "(\<forall>t. o_timeout opts = Some t \<and> t < 0 \<longrightarrow> r_timeout (Request_new E url data opts) = 0)
   \<and> (r_timeout r = 0 \<longrightarrow>
        fetch_tasks r = [AbortTask, FetchTask]
        \<and> \<not> ontimeout (requestByXHR r)
        \<and> xhr_timeout (requestByXHR r) = 0
        \<and> dispatch JSON_parse global r Timeout (requestByXHR r) = (None, requestByXHR r))"
  by (auto simp add: new_timeout fetch_tasks_def requestByXHR_def dispatch_def)

theorem negative_timeout_is_no_timeout_witness:
  "o_timeout (no_options\<lparr>o_timeout := Some (- 5)\<rparr>) = Some (- 5) \<and> (- 5 :: int) < 0
   \<and> r_timeout (Request_new example_page ''/api/timeout'' JNull
         (no_options\<lparr>o_timeout := Some (- 5)\<rparr>)) = 0
   \<and> fetch_tasks (Request_new example_page ''/api/timeout'' JNull
         (no_options\<lparr>o_timeout := Some (- 5)\<rparr>)) = [AbortTask, FetchTask]
   \<and> \<not> ontimeout (requestByXHR (Request_new example_page ''/api/timeout'' JNull
         (no_options\<lparr>o_timeout := Some (- 5)\<rparr>)))"
  using negative_timeout_is_no_timeout
    [of "no_options\<lparr>o_timeout := Some (- 5)\<rparr>" example_page "''/api/timeout''" JNull
        "Request_new example_page ''/api/timeout'' JNull (no_options\<lparr>o_timeout := Some (- 5)\<rparr>)"]
  by simp

subsection \<open>C9: the entries write to the caller's options\<close>

text \<open>
  C9. Every entry for one method writes its method into the options object it was handed
  (the object at address \<open>a\<close> of the store) before it calls \<open>fetch\<close> with that object;
  \<^verbatim>\<open>upload\<close> writes the type \<^verbatim>\<open>form\<close> as well and then goes through \<^verbatim>\<open>post\<close>. Nothing
  else in the store changes. A caller that passes the same object again meets the writes:
  after \<^verbatim>\<open>upload\<close>, a \<^verbatim>\<open>get\<close> with the same object runs with type \<^verbatim>\<open>form\<close>.
\<close>

theorem verb_entries_write_options:
  "fst (get E fire net url data a h) = h(a := (h a)\<lparr>o_method := Some GET\<rparr>)
   \<and> snd (get E fire net url data a h) = fetch E fire net url data ((h a)\<lparr>o_method := Some GET\<rparr>)
   \<and> fst (head E fire net url data a h) = h(a := (h a)\<lparr>o_method := Some HEAD\<rparr>)
   \<and> snd (head E fire net url data a h) = fetch E fire net url data ((h a)\<lparr>o_method := Some HEAD\<rparr>)
   \<and> fst (post E fire net url data a h) = h(a := (h a)\<lparr>o_method := Some POST\<rparr>)
   \<and> snd (post E fire net url data a h) = fetch E fire net url data ((h a)\<lparr>o_method := Some POST\<rparr>)
   \<and> fst (put E fire net url data a h) = h(a := (h a)\<lparr>o_method := Some PUT\<rparr>)
   \<and> snd (put E fire net url data a h) = fetch E fire net url data ((h a)\<lparr>o_method := Some PUT\<rparr>)
   \<and> fst (patch E fire net url data a h) = h(a := (h a)\<lparr>o_method := Some PATCH\<rparr>)
   \<and> snd (patch E fire net url data a h) = fetch E fire net url data ((h a)\<lparr>o_method := Some PATCH\<rparr>)
   \<and> fst (del E fire net url data a h) = h(a := (h a)\<lparr>o_method := Some DELETE\<rparr>)
   \<and> snd (del E fire net url data a h) = fetch E fire net url data ((h a)\<lparr>o_method := Some DELETE\<rparr>)
   \<and> fst (options E fire net url a h) = h(a := (h a)\<lparr>o_method := Some OPTIONS\<rparr>)
   \<and> snd (options E fire net url a h) = fetch E fire net url JNull ((h a)\<lparr>o_method := Some OPTIONS\<rparr>)
   \<and> fst (upload E fire net url data a h) =
         h(a := (h a)\<lparr>o_type := Some T_form, o_method := Some POST\<rparr>)
   \<and> snd (upload E fire net url data a h) =
         fetch E fire net url data ((h a)\<lparr>o_type := Some T_form, o_method := Some POST\<rparr>)
   \<and> fst (get E fire net url' data' a (fst (upload E fire net url data a h))) a =
         (h a)\<lparr>o_type := Some T_form, o_method := Some GET\<rparr>
   \<and> snd (get E fire net url' data' a (fst (upload E fire net url data a h))) =
         fetch E fire net url' data' ((h a)\<lparr>o_type := Some T_form, o_method := Some GET\<rparr>)"
  by (simp add: get_def head_def post_def put_def patch_def del_def options_def upload_def
      Let_def)

subsection \<open>C6: the error handler of the XMLHttpRequest transport\<close>

lemma new_RequestError_string:
  "new_RequestError s c (JStr m) JUndefined =
     Inr \<lparr>status = s, code = c, message = m, stack = None\<rparr>"
  by (simp add: new_RequestError_def)

text \<open>
  C6. When the \<^verbatim>\<open>error\<close> event reaches the request that \<^verbatim>\<open>requestByXHR\<close> set up, the
  promise is rejected with status 500 and code \<^verbatim>\<open>"1000"\<close>; the message is the constant
  \<^verbatim>\<open>REQUEST_ERROR_MSG\<close>, which the module spells \<^verbatim>\<open>Unknow Error\<close>, not
  \<^verbatim>\<open>Unknown Error\<close>.
\<close>

theorem onXHRError_rejects_with_unknow_error:
  "promise (snd (dispatch JSON_parse global r Error (requestByXHR r))) =
     Rejected (ReqError
       \<lparr>status = JNum 500, code = JStr ''1000'', message = ''Unknow Error'', stack = None\<rparr>)
   \<and> ''Unknow Error'' \<noteq> ''Unknown Error''"
  by (simp add: dispatch_def onXHRError_def fixed_failure_def new_RequestError_string
      requestByXHR_def reject_def finallyXHR_def REQUEST_ERROR_STATUS_def
      REQUEST_ERROR_CODE_def REQUEST_ERROR_MSG_def)

subsection \<open>C3: same origin and credentials\<close>

text \<open>
  Nothing follows the lazy group of the pattern, so it always matches the empty text: the
  \<^verbatim>\<open>domain\<close> that the setter of \<^verbatim>\<open>url\<close> compares with the host name of the page is empty
  for every absolute URL.
\<close>

lemma lazy_group_is_empty: "lazy_dot_star (\<lambda>_. True) [] s = Some []"
  by (cases s) simp_all

lemma ABSOLUTE_PATH_REG_group: "ABSOLUTE_PATH_REG val = Some g \<Longrightarrow> g = []"
  by (auto simp add: ABSOLUTE_PATH_REG_def Let_def lazy_group_is_empty split: option.splits)

lemma absolute_url_is_cross_origin:
  "ABSOLUTE_PATH_REG (r_url (Request_new E url data opts)) \<noteq> None \<Longrightarrow> hostname E \<noteq> [] \<Longrightarrow>
     r_cors (Request_new E url data opts)"
  by (auto simp add: new_cors dest: ABSOLUTE_PATH_REG_group)

lemma relative_url_forces_credentials:
  "ABSOLUTE_PATH_REG (r_url (Request_new E url data opts)) = None \<Longrightarrow>
     \<not> r_cors (Request_new E url data opts) \<and> r_credentials (Request_new E url data opts)"
  by (simp add: new_cors new_credentials)

text \<open>
  C3. On a page whose host name is \<^verbatim>\<open>localhost\<close>, a request for
  \<^verbatim>\<open>http://localhost/api/user/1234\<close> is marked cross-origin, and its credentials flag is
  the caller's option (false when there is none) instead of being forced to true.
\<close>

theorem same_host_absolute_url_is_cross_origin:
  "r_url (Request_new (E\<lparr>hostname := ''localhost''\<rparr>) ''http://localhost/api/user/1234'' JNull opts)
      = ''http://localhost/api/user/1234''
   \<and> r_cors (Request_new (E\<lparr>hostname := ''localhost''\<rparr>) ''http://localhost/api/user/1234'' JNull opts)
   \<and> r_credentials
        (Request_new (E\<lparr>hostname := ''localhost''\<rparr>) ''http://localhost/api/user/1234'' JNull opts)
      = (case o_credentials opts of None \<Rightarrow> False | Some b \<Rightarrow> b)"
proof -
  let ?R = "Request_new (E\<lparr>hostname := ''localhost''\<rparr>) ''http://localhost/api/user/1234'' JNull opts"
  have u: "r_url ?R = ''http://localhost/api/user/1234''"
    by (simp add: new_url)
  have m: "ABSOLUTE_PATH_REG ''http://localhost/api/user/1234'' = Some []"
    by (simp add: ABSOLUTE_PATH_REG_def lower_char_def)
  have c: "r_cors ?R"
    by (simp add: new_cors u m)
  show ?thesis
    using u c by (simp add: new_credentials)
qed

subsection \<open>C4: the headers of a form request\<close>

text \<open>
  C4, as amended. For a request of type \<^verbatim>\<open>form\<close> whose \<^verbatim>\<open>contentType\<close> option is absent
  or \<^verbatim>\<open>false\<close> and whose caller-supplied headers have no \<^verbatim>\<open>Content-Type\<close>, the final
  headers have no \<^verbatim>\<open>Content-Type\<close>. And for every request, each caller-supplied header is
  in the final headers with the caller's value: they are merged last and win.
\<close>

theorem form_content_type:
  "(o_type opts = Some T_form
      \<and> (o_contentType opts = None \<or> o_contentType opts = Some CT_false)
      \<and> (\<forall>h. o_headers opts = Some h \<longrightarrow> h ''Content-Type'' = None)
      \<longrightarrow> r_headers (Request_new E url data opts) ''Content-Type'' = None)
   \<and> (\<forall>h k v. o_headers opts = Some h \<and> h k = Some v
      \<longrightarrow> r_headers (Request_new E url data opts) k = Some v)"
  by (auto simp add: new_headers_given intro!: new_headers_form split: option.splits)

text \<open>
  The claim as it was stated fails: a form request whose caller supplies a
  \<^verbatim>\<open>Content-Type\<close> header keeps that header, and one whose caller passes a text as the
  \<^verbatim>\<open>contentType\<close> option gets that text as its \<^verbatim>\<open>Content-Type\<close>.
\<close>

theorem form_content_type_counterexample:
  "r_type (Request_new example_page ''/upload/image'' (JObj [])
       (no_options\<lparr>o_method := Some POST, o_type := Some T_form,
                    o_headers := Some [''Content-Type'' \<mapsto> ''text/plain'']\<rparr>)) = T_form
   \<and> r_headers (Request_new example_page ''/upload/image'' (JObj [])
       (no_options\<lparr>o_method := Some POST, o_type := Some T_form,
                    o_headers := Some [''Content-Type'' \<mapsto> ''text/plain'']\<rparr>)) ''Content-Type''
     = Some ''text/plain''
   \<and> r_type (Request_new example_page ''/upload/image'' (JObj [])
       (no_options\<lparr>o_method := Some POST, o_type := Some T_form,
                    o_contentType := Some (CT ''text/plain'')\<rparr>)) = T_form
   \<and> r_headers (Request_new example_page ''/upload/image'' (JObj [])
       (no_options\<lparr>o_method := Some POST, o_type := Some T_form,
                    o_contentType := Some (CT ''text/plain'')\<rparr>)) ''Content-Type''
     = Some ''text/plain''"
  by (simp add: new_type new_headers_given no_options_def)
     (simp add: Request_new_def Let_def if_given_keep Request_init_def)

theorem form_content_type_witness:
  "o_type (no_options\<lparr>o_type := Some T_form, o_contentType := Some CT_false,
                      o_headers := Some [''X-Mocha-TEST'' \<mapsto> ''v1.0.0'']\<rparr>) = Some T_form
   \<and> r_headers (Request_new example_page ''/upload/image'' (JObj [])
        (no_options\<lparr>o_type := Some T_form, o_contentType := Some CT_false,
                     o_headers := Some [''X-Mocha-TEST'' \<mapsto> ''v1.0.0'']\<rparr>)) ''Content-Type'' = None
   \<and> r_headers (Request_new example_page ''/upload/image'' (JObj [])
        (no_options\<lparr>o_type := Some T_form, o_contentType := Some CT_false,
                     o_headers := Some [''X-Mocha-TEST'' \<mapsto> ''v1.0.0'']\<rparr>)) ''X-Mocha-TEST''
      = Some ''v1.0.0''"
  using form_content_type
    [of "no_options\<lparr>o_type := Some T_form, o_contentType := Some CT_false,
                     o_headers := Some [''X-Mocha-TEST'' \<mapsto> ''v1.0.0'']\<rparr>"
        example_page "''/upload/image''" "JObj []"]
  by (simp add: no_options_def)

subsection \<open>C8: notifications of the generic entry\<close>

text \<open>
  C8, as amended. Provided the calls of \<^verbatim>\<open>fire\<close> return, that is, no listener lets an
  exception through: when the request resolves, \<^verbatim>\<open>fetch\<close> fires
  \<^verbatim>\<open>success\<close> and then \<^verbatim>\<open>complete\<close>, once each, and resolves with the data; when it is
  rejected, \<^verbatim>\<open>fetch\<close> fires \<^verbatim>\<open>error\<close> and then \<^verbatim>\<open>complete\<close>, once each, and is rejected
  with the same error; while the request is pending nothing is fired.
\<close>

theorem notifications_in_order:
  assumes "\<forall>n. fire n = None"
  shows "(\<forall>d. net (Request_new E url data opts) = Resolved d \<longrightarrow>
            fetch E fire net url data opts =
              ([Fire_success d (Request_new E url data opts),
                Fire_complete None d (Request_new E url data opts)], Resolved d))
       \<and> (\<forall>e. net (Request_new E url data opts) = Rejected e \<longrightarrow>
            fetch E fire net url data opts =
              ([Fire_error e (Request_new E url data opts),
                Fire_complete (Some e) JNull (Request_new E url data opts)], Rejected e))
       \<and> (net (Request_new E url data opts) = Pending \<longrightarrow>
            fetch E fire net url data opts = ([], Pending))"
  using assms by (simp add: fetch_def fetch_then_def fetch_catch_def Let_def)

theorem notifications_in_order_witness:
  "(\<forall>n. (\<lambda>_. None :: thrown option) n = None)
   \<and> fetch example_page (\<lambda>_. None) (\<lambda>r. Resolved (JStr ''1234'')) ''/api/user'' JNull no_options =
       ([Fire_success (JStr ''1234'') (Request_new example_page ''/api/user'' JNull no_options),
         Fire_complete None (JStr ''1234'') (Request_new example_page ''/api/user'' JNull no_options)],
        Resolved (JStr ''1234''))
   \<and> fetch example_page (\<lambda>_. None) (\<lambda>r. Rejected TypeError) ''/api/user'' JNull no_options =
       ([Fire_error TypeError (Request_new example_page ''/api/user'' JNull no_options),
         Fire_complete (Some TypeError) JNull (Request_new example_page ''/api/user'' JNull no_options)],
        Rejected TypeError)"
  using
    notifications_in_order [of "\<lambda>_. None" "\<lambda>r. Resolved (JStr ''1234'')" example_page
       "''/api/user''" JNull no_options]
    notifications_in_order [of "\<lambda>_. None" "\<lambda>r. Rejected TypeError" example_page
       "''/api/user''" JNull no_options]
  by simp

text \<open>
  The claim as it was stated, for every call, fails: \<^verbatim>\<open>.catch\<close> is chained behind
  \<^verbatim>\<open>.then\<close>, so an exception that \<^verbatim>\<open>fire('complete', ...)\<close> lets through on the success
  path runs the failure path as well. A request that resolved then fires \<^verbatim>\<open>success\<close>,
  \<^verbatim>\<open>complete\<close>, \<^verbatim>\<open>error\<close> and \<^verbatim>\<open>complete\<close> again, and the caller receives a rejection.
\<close>

theorem notifications_in_order_counterexample:
  "fetch example_page
      (\<lambda>n. case n of Fire_complete err d q \<Rightarrow> Some (Thrown (JStr ''listener'')) | _ \<Rightarrow> None)
      (\<lambda>r. Resolved (JStr ''1234'')) ''/api/user'' JNull no_options =
     ([Fire_success (JStr ''1234'') (Request_new example_page ''/api/user'' JNull no_options),
       Fire_complete None (JStr ''1234'')
         (Request_new example_page ''/api/user'' JNull no_options),
       Fire_error (Thrown (JStr ''listener''))
         (Request_new example_page ''/api/user'' JNull no_options),
       Fire_complete (Some (Thrown (JStr ''listener''))) JNull
         (Request_new example_page ''/api/user'' JNull no_options)],
      Rejected (Thrown (JStr ''listener'')))"
  by (simp add: fetch_def fetch_then_def fetch_catch_def Let_def)

text \<open>The same for any request, payload and exception.\<close>

lemma throwing_complete_listener:
  "fetch E (\<lambda>n. case n of Fire_complete err d q \<Rightarrow> Some e | _ \<Rightarrow> None)
      (\<lambda>r. Resolved d) url data opts =
     ([Fire_success d (Request_new E url data opts),
       Fire_complete None d (Request_new E url data opts),
       Fire_error e (Request_new E url data opts),
       Fire_complete (Some e) JNull (Request_new E url data opts)], Rejected e)"
  by (simp add: fetch_def fetch_then_def fetch_catch_def Let_def)

subsection \<open>C5: a body that is not JSON, on the XMLHttpRequest transport\<close>

lemma finallyXHR_detaches:
  "xhr st \<Longrightarrow> dispatch JSON_parse global r ev (finallyXHR st) = (None, finallyXHR st)"
  by (cases ev) (simp_all add: dispatch_def finallyXHR_def)

text \<open>
  C5. A response with status 200 whose text \<^verbatim>\<open><html>\<close> is not JSON (\<^verbatim>\<open>JSON.parse\<close> throws
  on it), received for a request of data type \<^verbatim>\<open>json\<close>: the \<^verbatim>\<open>SyntaxError\<close> leaves the
  handler of \<^verbatim>\<open>load\<close> uncaught, the promise stays pending, and since the handler has
  detached all four handlers no later event settles it. The fetch transport, given a
  response whose \<^verbatim>\<open>json()\<close> rejects, takes \<^verbatim>\<open>{}\<close> as the body and resolves.
\<close>

theorem xhr_invalid_json_never_settles:
  "fst (dispatch (JSON_parse(''<html>'' := None)) global (r\<lparr>r_dataType := DT_json\<rparr>)
          (Load \<lparr>readyState = 4, xhr_status = 200, xhr_statusText = ''OK'',
                 responseText = ''<html>''\<rparr>)
          (requestByXHR (r\<lparr>r_dataType := DT_json\<rparr>))) = Some SyntaxError
   \<and> promise (snd (dispatch (JSON_parse(''<html>'' := None)) global (r\<lparr>r_dataType := DT_json\<rparr>)
          (Load \<lparr>readyState = 4, xhr_status = 200, xhr_statusText = ''OK'',
                 responseText = ''<html>''\<rparr>)
          (requestByXHR (r\<lparr>r_dataType := DT_json\<rparr>)))) = Pending
   \<and> (\<forall>ev. promise (snd (dispatch JSON_parse' global' r' ev
          (snd (dispatch (JSON_parse(''<html>'' := None)) global (r\<lparr>r_dataType := DT_json\<rparr>)
            (Load \<lparr>readyState = 4, xhr_status = 200, xhr_statusText = ''OK'',
                   responseText = ''<html>''\<rparr>)
            (requestByXHR (r\<lparr>r_dataType := DT_json\<rparr>)))))) = Pending)
   \<and> onFetchLoad None (r\<lparr>r_dataType := DT_json, r_parse := None\<rparr>)
         \<lparr>res_status = 200, res_statusText = ''OK'', res_json = None,
          res_text = Some ''<html>''\<rparr> = Resolved (JObj [])"
proof -
  let ?r = "r\<lparr>r_dataType := DT_json\<rparr>"
  let ?x = "\<lparr>readyState = 4, xhr_status = 200, xhr_statusText = ''OK'', responseText = ''<html>''\<rparr>"
  have d: "dispatch (JSON_parse(''<html>'' := None)) global ?r (Load ?x) (requestByXHR ?r)
             = (Some SyntaxError, finallyXHR (requestByXHR ?r))"
    by (simp add: dispatch_def onXHRLoad_def xhr_result_def requestByXHR_def Let_def)
  have p: "promise (finallyXHR (requestByXHR ?r)) = Pending"
    by (simp add: finallyXHR_def requestByXHR_def)
  have f: "onFetchLoad None (r\<lparr>r_dataType := DT_json, r_parse := None\<rparr>)
         \<lparr>res_status = 200, res_statusText = ''OK'', res_json = None,
          res_text = Some ''<html>''\<rparr> = Resolved (JObj [])"
    by (simp add: onFetchLoad_def parseFetchData_def exceptional_status_def parseResponse_def
        defaultParseResponse_def REQUEST_SUCCESS_STATUS_def REQUEST_300_STATUS_def
        REQUEST_CACHE_STATUS_def Let_def)
  have x: "xhr (requestByXHR ?r)"
    by (simp add: requestByXHR_def)
  show ?thesis
    by (simp add: d p f finallyXHR_detaches [OF x])
qed

subsection \<open>C1: the HTTP status decides between the normaliser and a failure\<close>

lemma exceptional_status_iff:
  "exceptional_status s \<longleftrightarrow> \<not> ((200 \<le> s \<and> s < 300) \<or> s = 304)"
  by (auto simp add: exceptional_status_def REQUEST_SUCCESS_STATUS_def REQUEST_300_STATUS_def
      REQUEST_CACHE_STATUS_def)

lemma status_failure_built:
  "get_prop body ''errormsg'' = Inr em \<Longrightarrow> get_prop body ''errorcode'' = Inr ec \<Longrightarrow>
   ToString em = Some m \<Longrightarrow>
     status_failure body s t =
       Inr \<lparr>status = JNum s,
            code = (if truthy ec then ec else JStr (string_of_int s)),
            message = (if truthy em then m else if t \<noteq> [] then t else ''Unknow Error''),
            stack = None\<rparr>"
  by (cases em)
     (auto simp add: status_failure_def js_or_def new_RequestError_def Let_def
        REQUEST_ERROR_MSG_def)

lemma onFetchLoad_normal:
  "\<not> exceptional_status (res_status res) \<Longrightarrow>
     onFetchLoad global r res =
       (case parseResponse global r (parseFetchData r res) of
          Inl e \<Rightarrow> Rejected e | Inr d \<Rightarrow> Resolved d)"
  by (simp add: onFetchLoad_def Let_def)

lemma onFetchLoad_exceptional:
  "exceptional_status (res_status res) \<Longrightarrow>
   status_failure (parseFetchData r res) (res_status res) (res_statusText res) = Inr err \<Longrightarrow>
     onFetchLoad global r res = Rejected (ReqError err)"
  by (simp add: onFetchLoad_def Let_def)

lemma onXHRLoad_normal:
  "xhr st \<Longrightarrow> promise st = Pending \<Longrightarrow> readyState x = 4 \<Longrightarrow>
   xhr_result JSON_parse r (responseText x) = Inr body \<Longrightarrow>
   \<not> exceptional_status (xhr_status x) \<Longrightarrow>
     fst (onXHRLoad JSON_parse global r x st) = None
     \<and> promise (snd (onXHRLoad JSON_parse global r x st)) =
         (case parseResponse global r body of Inl e \<Rightarrow> Rejected e | Inr d \<Rightarrow> Resolved d)"
  by (simp add: onXHRLoad_def Let_def finallyXHR_def reject_def resolve_def split: sum.splits)

lemma onXHRLoad_exceptional:
  "xhr st \<Longrightarrow> promise st = Pending \<Longrightarrow> readyState x = 4 \<Longrightarrow>
   xhr_result JSON_parse r (responseText x) = Inr body \<Longrightarrow>
   exceptional_status (xhr_status x) \<Longrightarrow>
   status_failure body (xhr_status x) (xhr_statusText x) = Inr err \<Longrightarrow>
     fst (onXHRLoad JSON_parse global r x st) = None
     \<and> promise (snd (onXHRLoad JSON_parse global r x st)) = Rejected (ReqError err)"
  by (simp add: onXHRLoad_def Let_def finallyXHR_def reject_def)

text \<open>
  C1, as amended. Take a completed response whose body was parsed to \<open>body\<close> (on the fetch
  transport \<open>parseFetchData\<close> always gives one; on the other the response text is empty or
  \<^verbatim>\<open>JSON.parse\<close> accepts it, \<open>xhr_result ... = Inr body\<close>). If the status is in [200,300) or
  is 304, the call settles as \<open>parseResponse\<close> decides: it resolves with the data the
  normaliser returns and is rejected with what the normaliser throws. For any other status,
  if reading \<^verbatim>\<open>errormsg\<close> and \<^verbatim>\<open>errorcode\<close> from the body succeeds (the body is not
  \<^verbatim>\<open>null\<close>) and the value of \<^verbatim>\<open>errormsg\<close> converts to a string \<open>m\<close>, the call is rejected
  with a failure whose status is the HTTP status, whose message is \<open>m\<close> if \<^verbatim>\<open>errormsg\<close> is
  truthy, else the status text if that is not empty, else \<^verbatim>\<open>Unknow Error\<close>, and whose code is
  the value of \<^verbatim>\<open>errorcode\<close> if truthy, else the status printed in decimal. Both transports
  behave so.
\<close>

theorem status_classification:
  "(((200 \<le> s \<and> s < 300) \<or> s = 304) \<longrightarrow>
      (res_status res = s \<longrightarrow>
         onFetchLoad global r res =
           (case parseResponse global r (parseFetchData r res) of
              Inl e \<Rightarrow> Rejected e | Inr d \<Rightarrow> Resolved d))
      \<and> (xhr st \<and> promise st = Pending \<and> readyState x = 4 \<and> xhr_status x = s
           \<and> xhr_result JSON_parse r (responseText x) = Inr body \<longrightarrow>
         fst (onXHRLoad JSON_parse global r x st) = None
         \<and> promise (snd (onXHRLoad JSON_parse global r x st)) =
             (case parseResponse global r body of Inl e \<Rightarrow> Rejected e | Inr d \<Rightarrow> Resolved d)))
   \<and> (\<not> ((200 \<le> s \<and> s < 300) \<or> s = 304)
        \<and> get_prop body ''errormsg'' = Inr em \<and> get_prop body ''errorcode'' = Inr ec
        \<and> ToString em = Some m \<longrightarrow>
      (res_status res = s \<and> res_statusText res = t \<and> parseFetchData r res = body \<longrightarrow>
         onFetchLoad global r res =
           Rejected (ReqError
             \<lparr>status = JNum s,
              code = (if truthy ec then ec else JStr (string_of_int s)),
              message = (if truthy em then m else if t \<noteq> [] then t else ''Unknow Error''),
              stack = None\<rparr>))
      \<and> (xhr st \<and> promise st = Pending \<and> readyState x = 4 \<and> xhr_status x = s
           \<and> xhr_statusText x = t \<and> xhr_result JSON_parse r (responseText x) = Inr body \<longrightarrow>
         fst (onXHRLoad JSON_parse global r x st) = None
         \<and> promise (snd (onXHRLoad JSON_parse global r x st)) =
             Rejected (ReqError
               \<lparr>status = JNum s,
                code = (if truthy ec then ec else JStr (string_of_int s)),
                message = (if truthy em then m else if t \<noteq> [] then t else ''Unknow Error''),
                stack = None\<rparr>)))"
proof -
  have a: "res_status res = s \<Longrightarrow>
         onFetchLoad global r res =
           (case parseResponse global r (parseFetchData r res) of
              Inl e \<Rightarrow> Rejected e | Inr d \<Rightarrow> Resolved d)"
    if "(200 \<le> s \<and> s < 300) \<or> s = 304"
    using that by (intro onFetchLoad_normal) (simp add: exceptional_status_iff)
  have b: "fst (onXHRLoad JSON_parse global r x st) = None
         \<and> promise (snd (onXHRLoad JSON_parse global r x st)) =
             (case parseResponse global r body of Inl e \<Rightarrow> Rejected e | Inr d \<Rightarrow> Resolved d)"
    if "(200 \<le> s \<and> s < 300) \<or> s = 304" "xhr st" "promise st = Pending" "readyState x = 4"
       "xhr_status x = s" "xhr_result JSON_parse r (responseText x) = Inr body"
    using that by (intro onXHRLoad_normal) (simp_all add: exceptional_status_iff)
  have c: "onFetchLoad global r res =
           Rejected (ReqError
             \<lparr>status = JNum s,
              code = (if truthy ec then ec else JStr (string_of_int s)),
              message = (if truthy em then m else if t \<noteq> [] then t else ''Unknow Error''),
              stack = None\<rparr>)"
    if "\<not> ((200 \<le> s \<and> s < 300) \<or> s = 304)" "get_prop body ''errormsg'' = Inr em"
       "get_prop body ''errorcode'' = Inr ec" "ToString em = Some m"
       "res_status res = s" "res_statusText res = t" "parseFetchData r res = body"
    using that
    by (intro onFetchLoad_exceptional) (simp_all add: exceptional_status_iff status_failure_built)
  have d: "fst (onXHRLoad JSON_parse global r x st) = None
         \<and> promise (snd (onXHRLoad JSON_parse global r x st)) =
             Rejected (ReqError
               \<lparr>status = JNum s,
                code = (if truthy ec then ec else JStr (string_of_int s)),
                message = (if truthy em then m else if t \<noteq> [] then t else ''Unknow Error''),
                stack = None\<rparr>)"
    if "\<not> ((200 \<le> s \<and> s < 300) \<or> s = 304)" "get_prop body ''errormsg'' = Inr em"
       "get_prop body ''errorcode'' = Inr ec" "ToString em = Some m"
       "xhr st" "promise st = Pending" "readyState x = 4"
       "xhr_status x = s" "xhr_statusText x = t"
       "xhr_result JSON_parse r (responseText x) = Inr body"
    using that
    by (intro onXHRLoad_exceptional [where body = body])
       (simp_all add: exceptional_status_iff status_failure_built)
  show ?thesis
    using a b c d by blast
qed

text \<open>
  The claim as it was stated fails on a status in [200,300): the body the test server sends
  for \<^verbatim>\<open>/api/user/digest?code=200\<close> declares a failure, and the call is rejected.
\<close>

lemma string_of_int_examples:
  "string_of_int 500 = ''500''" "string_of_int 404 = ''404''" "string_of_int 0 = ''0''"
  by (simp_all add: string_of_int_def string_of_nat.simps digit_char_def)

theorem status_classification_counterexample:
  "onFetchLoad None (Request_new example_page ''/api/user/digest?code=200'' JNull no_options)
     \<lparr>res_status = 200, res_statusText = ''OK'',
      res_json = Some (JObj [(''success'', JBool False), (''statusCode'', JNum 500),
                            (''errorCode'', JNum 500),
                            (''errorMessage'', JStr ''Internal Server Error''),
                            (''data'', JNull)]),
      res_text = None\<rparr>
   = Rejected (ReqError \<lparr>status = JNum 500, code = JStr ''500'',
                          message = ''Internal Server Error'', stack = None\<rparr>)"
  by (simp add: onFetchLoad_def Let_def exceptional_status_iff parseFetchData_def new_dataType
      new_parse no_options_def parseResponse_def defaultParseResponse_def fill_defaults_def
      contract_failure_def new_RequestError_def js_or_def string_of_int_examples)

text \<open>The theorem at four responses: 200 and 404, on either transport.\<close>

theorem status_classification_witness:
  "onFetchLoad None (Request_new example_page ''/api/old/user/1234'' JNull no_options)
     \<lparr>res_status = 200, res_statusText = ''OK'', res_json = Some (JArr [JNum 1234]),
      res_text = None\<rparr>
     = Resolved (JArr [JNum 1234])
   \<and> promise (snd (onXHRLoad (\<lambda>t. if t = ''[1234]'' then Some (JArr [JNum 1234]) else None) None
        (Request_new example_page ''/api/old/user/1234'' JNull no_options)
        \<lparr>readyState = 4, xhr_status = 200, xhr_statusText = ''OK'', responseText = ''[1234]''\<rparr>
        (requestByXHR (Request_new example_page ''/api/old/user/1234'' JNull no_options))))
     = Resolved (JArr [JNum 1234])
   \<and> onFetchLoad None (Request_new example_page ''/api/notfound'' JNull no_options)
     \<lparr>res_status = 404, res_statusText = ''Not Found'',
      res_json = Some (JObj [(''success'', JBool False), (''statusCode'', JNum 404),
                            (''errorCode'', JNum 404), (''errorMessage'', JStr ''Not Found''),
                            (''data'', JNull)]),
      res_text = None\<rparr>
     = Rejected (ReqError \<lparr>status = JNum 404, code = JStr ''404'', message = ''Not Found'',
                            stack = None\<rparr>)
   \<and> promise (snd (onXHRLoad (\<lambda>t. Some (JObj [(''errormsg'', JStr ''no such user''),
                                              (''errorcode'', JNum 7)])) None
        (Request_new example_page ''/api/notfound'' JNull no_options)
        \<lparr>readyState = 4, xhr_status = 404, xhr_statusText = ''Not Found'', responseText = ''{...}''\<rparr>
        (requestByXHR (Request_new example_page ''/api/notfound'' JNull no_options))))
     = Rejected (ReqError \<lparr>status = JNum 404, code = JNum 7, message = ''no such user'',
                            stack = None\<rparr>)"
proof -
  let ?r = "Request_new example_page ''/api/old/user/1234'' JNull no_options"
  let ?q = "Request_new example_page ''/api/notfound'' JNull no_options"
  let ?b404 = "JObj [(''success'', JBool False), (''statusCode'', JNum 404),
                     (''errorCode'', JNum 404), (''errorMessage'', JStr ''Not Found''),
                     (''data'', JNull)]"
  let ?bmsg = "JObj [(''errormsg'', JStr ''no such user''), (''errorcode'', JNum 7)]"
  have dt: "r_dataType ?r = DT_json" "r_dataType ?q = DT_json"
    by (simp_all add: new_dataType no_options_def)
  have pr: "r_parse ?r = None"
    by (simp add: new_parse no_options_def)
  have p: "parseResponse None ?r (JArr [JNum 1234]) = Inr (JArr [JNum 1234])"
    by (simp add: parseResponse_def dt pr defaultParseResponse_def)
  have 1: "onFetchLoad None ?r
     \<lparr>res_status = 200, res_statusText = ''OK'', res_json = Some (JArr [JNum 1234]),
      res_text = None\<rparr> = Resolved (JArr [JNum 1234])"
    using status_classification [of 200
        "\<lparr>res_status = 200, res_statusText = ''OK'', res_json = Some (JArr [JNum 1234]),
          res_text = None\<rparr>" None ?r]
    by (simp add: p parseFetchData_def dt)
  have 2: "promise (snd (onXHRLoad (\<lambda>t. if t = ''[1234]'' then Some (JArr [JNum 1234]) else None)
        None ?r
        \<lparr>readyState = 4, xhr_status = 200, xhr_statusText = ''OK'', responseText = ''[1234]''\<rparr>
        (requestByXHR ?r))) = Resolved (JArr [JNum 1234])"
    using status_classification [of 200 _ None ?r "requestByXHR ?r"
        "\<lparr>readyState = 4, xhr_status = 200, xhr_statusText = ''OK'', responseText = ''[1234]''\<rparr>"
        "\<lambda>t. if t = ''[1234]'' then Some (JArr [JNum 1234]) else None" "JArr [JNum 1234]"]
    by (simp add: p xhr_result_def requestByXHR_def dt)
  have 3: "onFetchLoad None ?q
     \<lparr>res_status = 404, res_statusText = ''Not Found'', res_json = Some ?b404, res_text = None\<rparr>
     = Rejected (ReqError \<lparr>status = JNum 404, code = JStr ''404'', message = ''Not Found'',
                            stack = None\<rparr>)"
    using status_classification [of 404
        "\<lparr>res_status = 404, res_statusText = ''Not Found'', res_json = Some ?b404,
          res_text = None\<rparr>" None ?q _ _ _ ?b404 JUndefined JUndefined "''undefined''"
        "''Not Found''"]
    by (simp add: parseFetchData_def dt string_of_int_examples)
  have 4: "promise (snd (onXHRLoad (\<lambda>t. Some ?bmsg) None ?q
        \<lparr>readyState = 4, xhr_status = 404, xhr_statusText = ''Not Found'', responseText = ''{...}''\<rparr>
        (requestByXHR ?q)))
     = Rejected (ReqError \<lparr>status = JNum 404, code = JNum 7, message = ''no such user'',
                            stack = None\<rparr>)"
    using status_classification [of 404 _ None ?q "requestByXHR ?q"
        "\<lparr>readyState = 4, xhr_status = 404, xhr_statusText = ''Not Found'',
          responseText = ''{...}''\<rparr>"
        "\<lambda>t. Some ?bmsg" ?bmsg "JStr ''no such user''" "JNum 7" "''no such user''"
        "''Not Found''"]
    by (simp add: xhr_result_def requestByXHR_def dt)
  show ?thesis
    using 1 2 3 4 by simp
qed

text \<open>
  Left out of the amended claim: a JSON body \<^verbatim>\<open>null\<close> under an exceptional status. Reading
  \<^verbatim>\<open>result.errormsg\<close> throws; the fetch transport rejects with that \<^verbatim>\<open>TypeError\<close>, on the
  other transport it leaves the handler and the promise stays pending.
\<close>

lemma null_body_on_exceptional_status:
  "exceptional_status s \<Longrightarrow>
     onFetchLoad global (r\<lparr>r_dataType := DT_json\<rparr>)
       \<lparr>res_status = s, res_statusText = t, res_json = Some JNull, res_text = None\<rparr>
       = Rejected TypeError
     \<and> dispatch (JSON_parse(''null'' := Some JNull)) global (r\<lparr>r_dataType := DT_json\<rparr>)
         (Load \<lparr>readyState = 4, xhr_status = s, xhr_statusText = t, responseText = ''null''\<rparr>)
         (requestByXHR (r\<lparr>r_dataType := DT_json\<rparr>))
       = (Some TypeError, finallyXHR (requestByXHR (r\<lparr>r_dataType := DT_json\<rparr>)))"
  by (simp add: onFetchLoad_def parseFetchData_def status_failure_def dispatch_def
      onXHRLoad_def xhr_result_def Let_def requestByXHR_def)

subsection \<open>C2: the default parser\<close>

lemma hasOwnProperty_True:
  "hasOwnProperty body key = Inr True \<Longrightarrow>
     \<exists>kvs. body = JObj kvs \<and> map_of kvs ''hasOwnProperty'' = None \<and> map_of kvs key \<noteq> None"
  by (cases body) (simp_all split: if_splits)

lemma fill_defaults_object:
  "\<exists>kvs'. fill_defaults (JObj kvs) = Inr (JObj kvs')
     \<and> map_of kvs' =
         (\<lambda>k. if k = ''statusCode'' then
                  Some (case map_of kvs k of
                          None \<Rightarrow> JNum 200
                        | Some v \<Rightarrow> if truthy v then v else JNum 200)
               else if k = ''errorCode'' then
                  Some (case map_of kvs k of
                          None \<Rightarrow> JNum 0
                        | Some v \<Rightarrow> if truthy v then v else JNum 0)
               else if k = ''errorMessage'' \<or> k = ''errorStack'' then
                  Some (case map_of kvs k of
                          None \<Rightarrow> JNull
                        | Some v \<Rightarrow> if v = JUndefined then JNull else v)
               else map_of kvs k)"
  by (auto simp add: fill_defaults_def Let_def update_conv' REQUEST_SUCCESS_STATUS_def fun_eq_iff
      split: option.splits)


lemma hasOwnProperty_False:
  "hasOwnProperty body ''success'' = Inr False \<or> hasOwnProperty body ''data'' = Inr False \<Longrightarrow>
     defaultParseResponse body =
       Inr (JObj [(''success'', JBool True), (''statusCode'', JNum 200), (''errorCode'', JNum 0),
                  (''errorMessage'', JNull), (''errorStack'', JNull), (''data'', body)])"
  by (cases body)
     (auto simp add: defaultParseResponse_def REQUEST_SUCCESS_STATUS_def split: if_splits)

lemma wrapped_body_is_the_data:
  "hasOwnProperty body ''success'' = Inr False \<or> hasOwnProperty body ''data'' = Inr False \<Longrightarrow>
   r_dataType r = DT_json \<Longrightarrow> r_parse r = None \<Longrightarrow>
     parseResponse None r body = Inr body"
  by (simp add: parseResponse_def hasOwnProperty_False)

text \<open>
  C2, as amended. Let \<^verbatim>\<open>hasOwnProperty\<close> be callable on the body (it is neither \<^verbatim>\<open>null\<close> nor
  an object with an own property of that name), and let there be no parser of the call and no
  global one. If the body has own properties \<^verbatim>\<open>success\<close> and \<^verbatim>\<open>data\<close>, the default parser
  returns it with \<^verbatim>\<open>statusCode\<close> set to 200 when missing or falsy, \<^verbatim>\<open>errorCode\<close> set to 0
  when missing or falsy, \<^verbatim>\<open>errorMessage\<close> and \<^verbatim>\<open>errorStack\<close> set to \<^verbatim>\<open>null\<close> when missing (or
  \<^verbatim>\<open>undefined\<close>), and every other property as it was; with a truthy \<^verbatim>\<open>success\<close> the call
  resolves with its \<^verbatim>\<open>data\<close>. Otherwise the whole body is wrapped as the \<^verbatim>\<open>data\<close> of a
  successful response, and a JSON call with a successful status resolves with exactly the
  body, on both transports.
\<close>

theorem default_normalizer:
  "(hasOwnProperty body ''success'' = Inr True \<and> hasOwnProperty body ''data'' = Inr True \<longrightarrow>
      (\<exists>kvs kvs'. body = JObj kvs \<and> defaultParseResponse body = Inr (JObj kvs')
         \<and> map_of kvs' =
             (\<lambda>k. if k = ''statusCode'' then
                      Some (case map_of kvs k of
                              None \<Rightarrow> JNum 200
                            | Some v \<Rightarrow> if truthy v then v else JNum 200)
                   else if k = ''errorCode'' then
                      Some (case map_of kvs k of
                              None \<Rightarrow> JNum 0
                            | Some v \<Rightarrow> if truthy v then v else JNum 0)
                   else if k = ''errorMessage'' \<or> k = ''errorStack'' then
                      Some (case map_of kvs k of
                              None \<Rightarrow> JNull
                            | Some v \<Rightarrow> if v = JUndefined then JNull else v)
                   else map_of kvs k)
         \<and> (\<forall>sv dv. r_dataType r = DT_json \<and> r_parse r = None
               \<and> map_of kvs ''success'' = Some sv \<and> truthy sv \<and> map_of kvs ''data'' = Some dv
               \<longrightarrow> parseResponse None r body = Inr dv)))
   \<and> (hasOwnProperty body ''success'' = Inr False \<or> hasOwnProperty body ''data'' = Inr False \<longrightarrow>
        defaultParseResponse body =
          Inr (JObj [(''success'', JBool True), (''statusCode'', JNum 200),
                     (''errorCode'', JNum 0), (''errorMessage'', JNull),
                     (''errorStack'', JNull), (''data'', body)])
        \<and> (r_dataType r = DT_json \<and> r_parse r = None \<longrightarrow>
             parseResponse None r body = Inr body
             \<and> (res_json res = Some body
                  \<and> ((200 \<le> res_status res \<and> res_status res < 300) \<or> res_status res = 304)
                \<longrightarrow> onFetchLoad None r res = Resolved body)
             \<and> (xhr_result JSON_parse r (responseText x) = Inr body
                  \<and> ((200 \<le> xhr_status x \<and> xhr_status x < 300) \<or> xhr_status x = 304)
                  \<and> readyState x = 4
                \<longrightarrow> snd (dispatch JSON_parse None r (Load x) (requestByXHR r))
                      = finallyXHR (requestByXHR r)\<lparr>promise := Resolved body\<rparr>)))"
proof (intro conjI impI)
  assume h: "hasOwnProperty body ''success'' = Inr True \<and> hasOwnProperty body ''data'' = Inr True"
  then obtain kvs where b: "body = JObj kvs" and no: "map_of kvs ''hasOwnProperty'' = None"
    and s: "map_of kvs ''success'' \<noteq> None" and d: "map_of kvs ''data'' \<noteq> None"
    using hasOwnProperty_True [of body "''success''"] hasOwnProperty_True [of body "''data''"]
    by auto
  obtain kvs' where f: "fill_defaults (JObj kvs) = Inr (JObj kvs')"
    and m: "map_of kvs' =
             (\<lambda>k. if k = ''statusCode'' then
                      Some (case map_of kvs k of
                              None \<Rightarrow> JNum 200
                            | Some v \<Rightarrow> if truthy v then v else JNum 200)
                   else if k = ''errorCode'' then
                      Some (case map_of kvs k of
                              None \<Rightarrow> JNum 0
                            | Some v \<Rightarrow> if truthy v then v else JNum 0)
                   else if k = ''errorMessage'' \<or> k = ''errorStack'' then
                      Some (case map_of kvs k of
                              None \<Rightarrow> JNull
                            | Some v \<Rightarrow> if v = JUndefined then JNull else v)
                   else map_of kvs k)"
    using fill_defaults_object [of kvs] by blast
  have dp: "defaultParseResponse body = Inr (JObj kvs')"
    using b no s d f by (simp add: defaultParseResponse_def)
  have pr: "parseResponse None r body = Inr dv"
    if "r_dataType r = DT_json \<and> r_parse r = None
        \<and> map_of kvs ''success'' = Some sv \<and> truthy sv \<and> map_of kvs ''data'' = Some dv"
    for sv dv
    using that by (simp add: parseResponse_def dp m)
  show "\<exists>kvs kvs'. body = JObj kvs \<and> defaultParseResponse body = Inr (JObj kvs')
         \<and> map_of kvs' =
             (\<lambda>k. if k = ''statusCode'' then
                      Some (case map_of kvs k of
                              None \<Rightarrow> JNum 200
                            | Some v \<Rightarrow> if truthy v then v else JNum 200)
                   else if k = ''errorCode'' then
                      Some (case map_of kvs k of
                              None \<Rightarrow> JNum 0
                            | Some v \<Rightarrow> if truthy v then v else JNum 0)
                   else if k = ''errorMessage'' \<or> k = ''errorStack'' then
                      Some (case map_of kvs k of
                              None \<Rightarrow> JNull
                            | Some v \<Rightarrow> if v = JUndefined then JNull else v)
                   else map_of kvs k)
         \<and> (\<forall>sv dv. r_dataType r = DT_json \<and> r_parse r = None
               \<and> map_of kvs ''success'' = Some sv \<and> truthy sv \<and> map_of kvs ''data'' = Some dv
               \<longrightarrow> parseResponse None r body = Inr dv)"
    using b dp m pr by blast
next
  assume h: "hasOwnProperty body ''success'' = Inr False \<or> hasOwnProperty body ''data'' = Inr False"
  show "defaultParseResponse body =
          Inr (JObj [(''success'', JBool True), (''statusCode'', JNum 200),
                     (''errorCode'', JNum 0), (''errorMessage'', JNull),
                     (''errorStack'', JNull), (''data'', body)])"
    using h by (rule hasOwnProperty_False)
next
  assume h: "hasOwnProperty body ''success'' = Inr False \<or> hasOwnProperty body ''data'' = Inr False"
    and r: "r_dataType r = DT_json \<and> r_parse r = None"
  show "parseResponse None r body = Inr body"
    using h r by (simp add: wrapped_body_is_the_data)
next
  assume h: "hasOwnProperty body ''success'' = Inr False \<or> hasOwnProperty body ''data'' = Inr False"
    and r: "r_dataType r = DT_json \<and> r_parse r = None"
    and s: "res_json res = Some body
            \<and> ((200 \<le> res_status res \<and> res_status res < 300) \<or> res_status res = 304)"
  have ne: "\<not> exceptional_status (res_status res)"
    using s by (simp add: exceptional_status_iff)
  have "parseResponse None r body = Inr body"
    using h r by (simp add: wrapped_body_is_the_data)
  then show "onFetchLoad None r res = Resolved body"
    using r s ne by (simp add: onFetchLoad_def Let_def parseFetchData_def)
next
  assume h: "hasOwnProperty body ''success'' = Inr False \<or> hasOwnProperty body ''data'' = Inr False"
    and r: "r_dataType r = DT_json \<and> r_parse r = None"
    and s: "xhr_result JSON_parse r (responseText x) = Inr body
            \<and> ((200 \<le> xhr_status x \<and> xhr_status x < 300) \<or> xhr_status x = 304)
            \<and> readyState x = 4"
  have ne: "\<not> exceptional_status (xhr_status x)"
    using s by (simp add: exceptional_status_iff)
  have "parseResponse None r body = Inr body"
    using h r by (simp add: wrapped_body_is_the_data)
  then show "snd (dispatch JSON_parse None r (Load x) (requestByXHR r))
               = finallyXHR (requestByXHR r)\<lparr>promise := Resolved body\<rparr>"
    using s ne
    by (simp add: dispatch_def onXHRLoad_def Let_def resolve_def finallyXHR_def
        requestByXHR_def)
qed

text \<open>
  The claim as it was stated fails: a \<^verbatim>\<open>statusCode\<close> that is there with the value 0 (and an
  \<^verbatim>\<open>errorCode\<close> that is there with the empty text) is overwritten, not only a missing one,
  and the failure the call is rejected with carries the values written; and the body
  \<^verbatim>\<open>null\<close> is not wrapped, the parser throws on it and the call is rejected.
\<close>

theorem default_normalizer_counterexample:
  "map_of [(''success'', JBool False), (''data'', JNull), (''statusCode'', JNum 0),
           (''errorCode'', JStr [])] ''statusCode'' = Some (JNum 0)
   \<and> defaultParseResponse
        (JObj [(''success'', JBool False), (''data'', JNull), (''statusCode'', JNum 0),
               (''errorCode'', JStr [])])
      = Inr (JObj [(''success'', JBool False), (''data'', JNull), (''statusCode'', JNum 200),
                   (''errorCode'', JNum 0), (''errorMessage'', JNull), (''errorStack'', JNull)])
   \<and> onFetchLoad None (Request_new example_page ''/api/user/1234'' JNull no_options)
        \<lparr>res_status = 200, res_statusText = ''OK'',
         res_json = Some (JObj [(''success'', JBool False), (''data'', JNull),
                                (''statusCode'', JNum 0), (''errorCode'', JStr [])]),
         res_text = None\<rparr>
      = Rejected (ReqError \<lparr>status = JNum 200, code = JStr ''0'', message = ''Unknow Error'',
                             stack = None\<rparr>)
   \<and> defaultParseResponse JNull = Inl TypeError
   \<and> onFetchLoad None (Request_new example_page ''/api/user/1234'' JNull no_options)
        \<lparr>res_status = 200, res_statusText = ''OK'', res_json = Some JNull, res_text = None\<rparr>
      = Rejected TypeError"
  by (simp add: defaultParseResponse_def fill_defaults_def REQUEST_SUCCESS_STATUS_def
      onFetchLoad_def Let_def exceptional_status_iff parseFetchData_def new_dataType new_parse
      no_options_def parseResponse_def contract_failure_def new_RequestError_def js_or_def
      string_of_int_examples REQUEST_ERROR_MSG_def)

text \<open>
  The theorem at two bodies of the test server: the standard envelope around a user, and the
  bare user of \<^verbatim>\<open>/api/old/user/1234\<close>.
\<close>

theorem default_normalizer_witness:
  "(\<exists>kvs'. defaultParseResponse
        (JObj [(''success'', JBool True), (''statusCode'', JNum 200), (''errorCode'', JNum 0),
               (''errorMessage'', JNull),
               (''data'', JObj [(''id'', JStr ''1234''), (''name'', JStr ''test''),
                                (''age'', JNum 32)])]) = Inr (JObj kvs')
      \<and> map_of kvs' ''statusCode'' = Some (JNum 200)
      \<and> map_of kvs' ''errorCode'' = Some (JNum 0)
      \<and> map_of kvs' ''errorStack'' = Some JNull
      \<and> map_of kvs' ''data''
          = Some (JObj [(''id'', JStr ''1234''), (''name'', JStr ''test''), (''age'', JNum 32)]))
   \<and> parseResponse None (Request_new example_page ''/api/user/1234'' JNull no_options)
        (JObj [(''success'', JBool True), (''statusCode'', JNum 200), (''errorCode'', JNum 0),
               (''errorMessage'', JNull),
               (''data'', JObj [(''id'', JStr ''1234''), (''name'', JStr ''test''),
                                (''age'', JNum 32)])])
      = Inr (JObj [(''id'', JStr ''1234''), (''name'', JStr ''test''), (''age'', JNum 32)])
   \<and> defaultParseResponse
        (JObj [(''id'', JStr ''1234''), (''name'', JStr ''test''), (''age'', JNum 32)])
      = Inr (JObj [(''success'', JBool True), (''statusCode'', JNum 200),
                   (''errorCode'', JNum 0), (''errorMessage'', JNull), (''errorStack'', JNull),
                   (''data'', JObj [(''id'', JStr ''1234''), (''name'', JStr ''test''),
                                    (''age'', JNum 32)])])
   \<and> onFetchLoad None (Request_new example_page ''/api/old/user/1234'' JNull no_options)
        \<lparr>res_status = 200, res_statusText = ''OK'',
         res_json = Some (JObj [(''id'', JStr ''1234''), (''name'', JStr ''test''),
                                (''age'', JNum 32)]),
         res_text = None\<rparr>
      = Resolved (JObj [(''id'', JStr ''1234''), (''name'', JStr ''test''), (''age'', JNum 32)])"
proof -
  let ?user = "JObj [(''id'', JStr ''1234''), (''name'', JStr ''test''), (''age'', JNum 32)]"
  let ?std = "JObj [(''success'', JBool True), (''statusCode'', JNum 200),
                    (''errorCode'', JNum 0), (''errorMessage'', JNull), (''data'', ?user)]"
  let ?r = "Request_new example_page ''/api/user/1234'' JNull no_options"
  let ?q = "Request_new example_page ''/api/old/user/1234'' JNull no_options"
  let ?res = "\<lparr>res_status = 200, res_statusText = ''OK'', res_json = Some ?user,
               res_text = None\<rparr>"
  have r: "r_dataType ?r = DT_json \<and> r_parse ?r = None"
          "r_dataType ?q = DT_json \<and> r_parse ?q = None"
    by (simp_all add: new_dataType new_parse no_options_def)
  have hs: "hasOwnProperty ?std ''success'' = Inr True \<and> hasOwnProperty ?std ''data'' = Inr True"
    by simp
  have hu: "hasOwnProperty ?user ''success'' = Inr False \<or> hasOwnProperty ?user ''data'' = Inr False"
    by simp
  from default_normalizer [of ?std ?r] hs r(1)
  have 1: "(\<exists>kvs'. defaultParseResponse ?std = Inr (JObj kvs')
      \<and> map_of kvs' ''statusCode'' = Some (JNum 200)
      \<and> map_of kvs' ''errorCode'' = Some (JNum 0)
      \<and> map_of kvs' ''errorStack'' = Some JNull
      \<and> map_of kvs' ''data'' = Some ?user)
      \<and> parseResponse None ?r ?std = Inr ?user"
    by auto
  from default_normalizer [of ?user ?q ?res] hu r(2)
  have 2: "defaultParseResponse ?user
      = Inr (JObj [(''success'', JBool True), (''statusCode'', JNum 200),
                   (''errorCode'', JNum 0), (''errorMessage'', JNull), (''errorStack'', JNull),
                   (''data'', ?user)])
      \<and> onFetchLoad None ?q ?res = Resolved ?user"
    by simp
  show ?thesis
    using 1 2 by simp
qed

end
